theory Spec2Isabelle
  imports Main "HOL-Library.Word"
begin

section \<open>Levels (level.go)\<close>

text \<open>
  \<^verbatim>\<open>type Level uint8\<close> with the constants \<^verbatim>\<open>LevelTrace = iota\<close> ... \<^verbatim>\<open>LevelFatal\<close>.
  A level is any byte; the six named constants are the values 0 to 5, and the
  comparison \<^verbatim>\<open><=\<close> of the source is the unsigned order of the word.
\<close>

type_synonym Level = "8 word"

definition LevelTrace :: Level where "LevelTrace = 0"
definition LevelDebug :: Level where "LevelDebug = 1"
definition LevelInfo :: Level where "LevelInfo = 2"
definition LevelWarning :: Level where "LevelWarning = 3"
definition LevelError :: Level where "LevelError = 4"
definition LevelFatal :: Level where "LevelFatal = 5"

lemmas Level_defs =
  LevelTrace_def LevelDebug_def LevelInfo_def LevelWarning_def LevelError_def LevelFatal_def

text \<open>The defined enumeration, in its order.\<close>

definition levels :: "Level list" where
  "levels = [LevelTrace, LevelDebug, LevelInfo, LevelWarning, LevelError, LevelFatal]"

text \<open>\<^verbatim>\<open>func (lvl Level) String() string\<close>: a switch with the fall-through result "DEBUG".\<close>

definition Level_String :: "Level \<Rightarrow> string" where
  "Level_String lvl =
     (if lvl = LevelTrace then ''TRACE''
      else if lvl = LevelDebug then ''DEBUG''
      else if lvl = LevelInfo then ''INFO''
      else if lvl = LevelWarning then ''WARN''
      else if lvl = LevelError then ''ERROR''
      else if lvl = LevelFatal then ''FATAL''
      else ''DEBUG'')"

text \<open>
  \<^verbatim>\<open>strings.ToLower\<close> on the bytes of the string: the letters A to Z are mapped to a to z.
  Bytes outside ASCII are left as they are (the model does not decode UTF-8; every
  string the level parser recognises is ASCII).
\<close>

definition ToLower_char :: "char \<Rightarrow> char" where
  "ToLower_char c =
     (case map_of (zip ''ABCDEFGHIJKLMNOPQRSTUVWXYZ'' ''abcdefghijklmnopqrstuvwxyz'') c of
        Some d \<Rightarrow> d
      | None \<Rightarrow> c)"

definition ToLower :: "string \<Rightarrow> string" where
  "ToLower s = map ToLower_char s"

text \<open>
  \<^verbatim>\<open>func GetLevelByName(levelName string) Level\<close>. The default branch calls the
  package-level \<^verbatim>\<open>Warning\<close> with the lowered name before it returns
  \<^verbatim>\<open>LevelWarning\<close>; the model returns that diagnostic beside the level:
  \<open>None\<close> when a recognised branch was taken, \<open>Some name\<close> when the warning was issued.
\<close>

definition GetLevelByName :: "string \<Rightarrow> Level \<times> string option" where
  "GetLevelByName levelName =
     (let levelName = ToLower levelName in
      if levelName = ''trace'' then (LevelTrace, None)
      else if levelName = ''debug'' then (LevelDebug, None)
      else if levelName = ''info'' then (LevelInfo, None)
      else if levelName = ''warn'' \<or> levelName = ''warning'' then (LevelWarning, None)
      else if levelName = ''error'' then (LevelError, None)
      else if levelName = ''panic'' \<or> levelName = ''fatal'' then (LevelFatal, None)
      else (LevelWarning, Some levelName))"

section \<open>Strings, numbers and time (standard-library helpers the code calls)\<close>

text \<open>Decimal digits of a natural number, and \<^verbatim>\<open>strconv.Itoa\<close>.\<close>

definition digit_char :: "nat \<Rightarrow> char" where
  "digit_char n = ''0123456789'' ! (n mod 10)"

fun digits :: "nat \<Rightarrow> string" where
  "digits n = (if n < 10 then [digit_char n] else digits (n div 10) @ [digit_char n])"

declare digits.simps [simp del]

definition Itoa :: "int \<Rightarrow> string" where
  "Itoa i = (if i < 0 then CHR ''-'' # digits (nat (- i)) else digits (nat i))"

text \<open>A number printed with at least \<open>w\<close> digits, zeros in front.\<close>

definition pad_zero :: "nat \<Rightarrow> nat \<Rightarrow> string" where
  "pad_zero w n = replicate (w - length (digits n)) CHR ''0'' @ digits n"

text \<open>
  \<^verbatim>\<open>fmt.Sprintf("%-5s", level)\<close>: the verb \<^verbatim>\<open>%s\<close> prints \<^verbatim>\<open>level.String()\<close>, the flag
  \<^verbatim>\<open>-\<close> pads with spaces on the right up to the width.
\<close>

definition pad_right :: "nat \<Rightarrow> string \<Rightarrow> string" where
  "pad_right w s = s @ replicate (w - length s) CHR '' ''"

text \<open>
  The local wall-clock time \<^verbatim>\<open>time.Now().Local()\<close>, broken into calendar fields, and
  \<^verbatim>\<open>Format\<close> for the two layouts the code uses.
\<close>

record time =
  Year :: nat
  Month :: nat
  Day :: nat
  Hour :: nat
  Minute :: nat
  Second :: nat

definition Format_date :: "time \<Rightarrow> string" where
  \<comment> \<open>layout \<^verbatim>\<open>"2006-01-02"\<close>\<close>
  "Format_date t = pad_zero 4 (Year t) @ ''-'' @ pad_zero 2 (Month t) @ ''-'' @ pad_zero 2 (Day t)"

definition Format_datetime :: "time \<Rightarrow> string" where
  \<comment> \<open>layout \<^verbatim>\<open>"2006-01-02 15:04:05"\<close>\<close>
  "Format_datetime t =
     Format_date t @ '' '' @ pad_zero 2 (Hour t) @ '':'' @ pad_zero 2 (Minute t) @ '':'' @
     pad_zero 2 (Second t)"

text \<open>
  \<^verbatim>\<open>strings.LastIndex(s, "/")\<close> for a one-byte separator: the index of its last
  occurrence, or -1.
\<close>

primrec LastIndex_from :: "char \<Rightarrow> string \<Rightarrow> nat \<Rightarrow> int \<Rightarrow> int" where
  "LastIndex_from c [] i found = found"
| "LastIndex_from c (x # xs) i found = LastIndex_from c xs (Suc i) (if x = c then int i else found)"

definition LastIndex :: "string \<Rightarrow> char \<Rightarrow> int" where
  "LastIndex s c = LastIndex_from c s 0 (- 1)"

text \<open>\<^verbatim>\<open>strings.ReplaceAll(s, "\\", "/")\<close>: every backslash becomes a slash.\<close>

definition ReplaceAll_backslash :: "string \<Rightarrow> string" where
  "ReplaceAll_backslash s = map (\<lambda>c. if c = CHR 0x5C then CHR ''/'' else c) s"

text \<open>
  \<^verbatim>\<open>strings.TrimSpace(s) != ""\<close>: some byte of the string is not white space (the ASCII
  white space \<^verbatim>\<open>\t \n \v \f \r\<close> and the blank; the model does not decode UTF-8).
\<close>

definition is_space :: "char \<Rightarrow> bool" where
  "is_space c = (c \<in> set [CHR 0x09, CHR 0x0A, CHR 0x0B, CHR 0x0C, CHR 0x0D, CHR '' ''])"

definition TrimSpace_nonempty :: "string \<Rightarrow> bool" where
  "TrimSpace_nonempty s = (\<exists>c \<in> set s. \<not> is_space c)"

text \<open>
  \<^verbatim>\<open>log.Logger.Println\<close> writes the text and a line break; \<^verbatim>\<open>log.Logger.Output\<close>
  (used by \<^verbatim>\<open>Fatal\<close>) adds the line break only when the text does not end with one.
\<close>

definition Println_bytes :: "string \<Rightarrow> string" where
  "Println_bytes s = s @ [CHR 0x0A]"

definition Output_bytes :: "string \<Rightarrow> string" where
  "Output_bytes s = (if s = [] \<or> last s \<noteq> CHR 0x0A then s @ [CHR 0x0A] else s)"

section \<open>Colours (colors.go)\<close>

text \<open>
  \<^verbatim>\<open>func color(code, termination string) func(str string) string\<close> and the palette.
  \<^verbatim>\<open>\033\<close> is the escape byte.
\<close>

definition color :: "string \<Rightarrow> string \<Rightarrow> string \<Rightarrow> string" where
  "color code termination str = code @ str @ termination"

definition colPurple :: "string \<Rightarrow> string" where
  "colPurple = color (CHR 0x1B # ''[1;35m'') (CHR 0x1B # ''[0m'')"
definition colPurpleLight :: "string \<Rightarrow> string" where
  "colPurpleLight = color (CHR 0x1B # ''[0;35m'') (CHR 0x1B # ''[0m'')"
definition colRed :: "string \<Rightarrow> string" where
  "colRed = color (CHR 0x1B # ''[1;31m'') (CHR 0x1B # ''[0m'')"
definition colYellow :: "string \<Rightarrow> string" where
  "colYellow = color (CHR 0x1B # ''[1;33m'') (CHR 0x1B # ''[0m'')"
definition colBlue :: "string \<Rightarrow> string" where
  "colBlue = color (CHR 0x1B # ''[1;34m'') (CHR 0x1B # ''[0m'')"
definition colBlueLight :: "string \<Rightarrow> string" where
  "colBlueLight = color (CHR 0x1B # ''[0;34m'') (CHR 0x1B # ''[0m'')"
definition colCyan :: "string \<Rightarrow> string" where
  "colCyan = color (CHR 0x1B # ''[1;36m'') (CHR 0x1B # ''[0m'')"
definition colGreen :: "string \<Rightarrow> string" where
  "colGreen = color (CHR 0x1B # ''[0;32m'') (CHR 0x1B # ''[0m'')"

definition getColor :: "Level \<Rightarrow> string \<Rightarrow> string" where
  "getColor l =
     (if l = LevelTrace then colPurpleLight
      else if l = LevelDebug then colGreen
      else if l = LevelInfo then colBlue
      else if l = LevelWarning then colYellow
      else colRed)"

section \<open>The runtime the library runs in\<close>

text \<open>
  What the code reads from outside during one call, as a record of inputs:
  \<^item> \<open>Now\<close>: the local time (one call sees one time; a later call may see a later one);
  \<^item> \<open>OpenFile_err\<close>: what \<^verbatim>\<open>os.OpenFile(path, O_APPEND|O_CREATE|O_WRONLY, 0644)\<close> answers,
    \<open>None\<close> when the file opens and \<open>Some e\<close> with the text of \<^verbatim>\<open>err.Error()\<close> otherwise;
  \<^item> \<open>LookupEnv\<close>: the environment variables;
  \<^item> \<open>Caller\<close>: \<^verbatim>\<open>runtime.Caller(skip)\<close>, the file and line of the frame, \<open>None\<close> when
    \<^verbatim>\<open>ok\<close> is false;
  \<^item> \<open>Sprintf\<close>: \<^verbatim>\<open>fmt.Sprintf\<close> on a template and its arguments;
  \<^item> \<open>isColoringSupported\<close>: the platform's terminal probe, \<open>Inr b\<close> its answer,
    \<open>Inl v\<close> a panic with value \<open>v\<close> (\<^verbatim>\<open>newColorConfig\<close> "could panic because of low
    level system access").
\<close>

datatype any = AnyString string | AnyInt int

record runtime =
  Now :: time
  OpenFile_err :: "string \<Rightarrow> string option"
  LookupEnv :: "string \<Rightarrow> string option"
  Caller :: "int \<Rightarrow> (string \<times> int) option"
  Sprintf :: "string \<Rightarrow> any list \<Rightarrow> string"
  isColoringSupported :: "string + bool"

section \<open>Data model (filelogger.go, logger.go)\<close>

text \<open>
  \<^verbatim>\<open>sync.RWMutex\<close> as seen by the one goroutine the model runs: the write lock is held
  or not, and a number of read locks are held.
\<close>

record RWMutex =
  writer :: bool
  readers :: nat

text \<open>
  \<^verbatim>\<open>type FileLogger struct\<close>. The two mutex pointers are \<open>None\<close> while nil. The
  \<^verbatim>\<open>*log.Logger\<close> and the \<^verbatim>\<open>*os.File\<close> are \<open>None\<close> while nil and otherwise carry the
  name of the file they write to (\<^verbatim>\<open>file.Name()\<close> is the path given to \<^verbatim>\<open>OpenFile\<close>).
  The field \<^verbatim>\<open>Level\<close> is called \<open>File_Level\<close> here and the field \<^verbatim>\<open>file\<close> is called
  \<open>osFile\<close>. The back reference \<^verbatim>\<open>rootLogger\<close> is the logger that holds this record:
  \<^verbatim>\<open>setup\<close> installs it before anything uses it.
\<close>

record FileLogger =
  File_Level :: Level
  Path :: string
  AppendDate :: bool
  fileSync :: "RWMutex option"
  fileSyncWrite :: "RWMutex option"
  logger :: "string option"
  osFile :: "string option"

text \<open>
  \<^verbatim>\<open>type Logger struct\<close>. \<open>File\<close> is \<open>None\<close> for a nil pointer; \<open>enableColors\<close> is
  \<^verbatim>\<open>colorConf.enableColors\<close>; the two console loggers are \<open>True\<close> once \<^verbatim>\<open>setup\<close> has
  installed them and \<open>False\<close> while nil.
\<close>

record Logger =
  Level :: Level
  ColoredOutput :: bool
  PrintSource :: bool
  OnlyPrintMessage :: bool
  FuncCallIncrement :: int
  Prefix :: string
  File :: "FileLogger option"
  enableColors :: bool
  consoleLogger :: bool
  consoleLoggerErr :: bool

text \<open>
  What a call leaves behind: the console writes and the operations on files, in the
  order they happen, and the bytes each file holds.
\<close>

datatype event =
  Stdout string
| Stderr string
| FileOpened string
| FileClosed string
| FileWrite string string
| FileSynced string

record 'l state =
  lg :: 'l
  fs :: "string \<Rightarrow> string option"
  events :: "event list"

text \<open>
  How a call ends: it returns to its caller, a panic leaves it (a nil dereference, or a
  fatal error of the runtime), \<^verbatim>\<open>os.Exit(1)\<close> ends the process, or it waits for a lock
  that nothing will release.
\<close>

datatype 'l outcome =
  Returned "'l state"
| Panicked "'l state"
| Exited "'l state"
| Blocked "'l state"

definition bnd :: "'l outcome \<Rightarrow> ('l state \<Rightarrow> 'l outcome) \<Rightarrow> 'l outcome" where
  "bnd m f = (case m of Returned s \<Rightarrow> f s | Panicked s \<Rightarrow> Panicked s
              | Exited s \<Rightarrow> Exited s | Blocked s \<Rightarrow> Blocked s)"

fun final :: "'l outcome \<Rightarrow> 'l state" where
  "final (Returned s) = s"
| "final (Panicked s) = s"
| "final (Exited s) = s"
| "final (Blocked s) = s"

lemma bnd_cong [fundef_cong]:
  "m = m' \<Longrightarrow> (\<And>s. m' = Returned s \<Longrightarrow> f s = f' s) \<Longrightarrow> bnd m f = bnd m' f'"
  by (auto simp: bnd_def split: outcome.splits)

lemma bnd_weak_cong [cong]: "m = m' \<Longrightarrow> bnd m f = bnd m' f"
  by simp

lemma bnd_simps [simp]:
  "bnd (Returned s) f = f s"
  "bnd (Panicked s) f = Panicked s"
  "bnd (Exited s) f = Exited s"
  "bnd (Blocked s) f = Blocked s"
  by (simp_all add: bnd_def)

subsection \<open>Locks\<close>

datatype mres = MOk RWMutex | MBlock | MFatal

definition Lock :: "RWMutex \<Rightarrow> mres" where
  "Lock m = (if writer m \<or> 0 < readers m then MBlock else MOk (m\<lparr>writer := True\<rparr>))"

definition Unlock :: "RWMutex \<Rightarrow> mres" where
  "Unlock m = (if writer m then MOk (m\<lparr>writer := False\<rparr>) else MFatal)"

definition RLock :: "RWMutex \<Rightarrow> mres" where
  "RLock m = (if writer m then MBlock else MOk (m\<lparr>readers := Suc (readers m)\<rparr>))"

definition RUnlock :: "RWMutex \<Rightarrow> mres" where
  "RUnlock m = (if readers m = 0 then MFatal else MOk (m\<lparr>readers := readers m - 1\<rparr>))"

definition new_RWMutex :: RWMutex where
  "new_RWMutex = \<lparr>writer = False, readers = 0\<rparr>"

definition upd_File :: "(FileLogger \<Rightarrow> FileLogger) \<Rightarrow> Logger state \<Rightarrow> Logger state" where
  "upd_File g s = s\<lparr>lg := (lg s)\<lparr>File := map_option g (File (lg s))\<rparr>\<rparr>"

text \<open>
  \<^verbatim>\<open>l.fileSync.<op>()\<close> and \<^verbatim>\<open>l.fileSyncWrite.<op>()\<close>: a nil pointer panics, a lock that
  is not free blocks, unlocking a lock that is not held is a fatal error.
\<close>

definition on_fileSync :: "(RWMutex \<Rightarrow> mres) \<Rightarrow> Logger state \<Rightarrow> Logger outcome" where
  "on_fileSync opr s =
     (case File (lg s) of
        None \<Rightarrow> Panicked s
      | Some f \<Rightarrow>
         (case fileSync f of
            None \<Rightarrow> Panicked s
          | Some m \<Rightarrow>
             (case opr m of
                MOk m' \<Rightarrow> Returned (upd_File (\<lambda>f. f\<lparr>fileSync := Some m'\<rparr>) s)
              | MBlock \<Rightarrow> Blocked s
              | MFatal \<Rightarrow> Panicked s)))"

definition on_fileSyncWrite :: "(RWMutex \<Rightarrow> mres) \<Rightarrow> Logger state \<Rightarrow> Logger outcome" where
  "on_fileSyncWrite opr s =
     (case File (lg s) of
        None \<Rightarrow> Panicked s
      | Some f \<Rightarrow>
         (case fileSyncWrite f of
            None \<Rightarrow> Panicked s
          | Some m \<Rightarrow>
             (case opr m of
                MOk m' \<Rightarrow> Returned (upd_File (\<lambda>f. f\<lparr>fileSyncWrite := Some m'\<rparr>) s)
              | MBlock \<Rightarrow> Blocked s
              | MFatal \<Rightarrow> Panicked s)))"

section \<open>The file sink (filelogger.go)\<close>

definition getFileDate :: "runtime \<Rightarrow> string" where
  "getFileDate rt = Format_date (Now rt)"

definition getFilePath :: "runtime \<Rightarrow> FileLogger \<Rightarrow> string" where
  "getFilePath rt l =
     (let path = ReplaceAll_backslash (Path l) in
      if AppendDate l then
        (let lastSlash = LastIndex path CHR ''/'' in
         if lastSlash \<noteq> - 1 \<and> lastSlash + 1 < int (length path) then path @ ''.'' @ getFileDate rt
         else if lastSlash = - 1 then path @ ''.'' @ getFileDate rt
         else path @ getFileDate rt)
      else path)"

text \<open>\<^verbatim>\<open>func (l *FileLogger) CloseFile()\<close>.\<close>

definition CloseFile :: "Logger state \<Rightarrow> Logger outcome" where
  "CloseFile s =
     (case File (lg s) of
        None \<Rightarrow> Panicked s
      | Some f \<Rightarrow>
         (case osFile f of
            None \<Rightarrow> Returned s
          | Some name \<Rightarrow>
             bnd (on_fileSync Lock s) (\<lambda>s.
             bnd (Returned (s\<lparr>events := events s @ [FileClosed name]\<rparr>)) (\<lambda>s.
             bnd (Returned (upd_File (\<lambda>f. f\<lparr>osFile := None, logger := None\<rparr>) s))
               (on_fileSync Unlock)))))"

text \<open>
  \<^verbatim>\<open>l.logger.Println(message)\<close> on the file's logger: a nil logger panics; otherwise the
  bytes are appended to the file the logger was made for. \<^verbatim>\<open>l.file.Sync()\<close> answers an
  error on a nil file, which the code drops.
\<close>

definition logger_Println :: "string \<Rightarrow> Logger state \<Rightarrow> Logger outcome" where
  "logger_Println message s =
     (case File (lg s) of
        None \<Rightarrow> Panicked s
      | Some f \<Rightarrow>
         (case logger f of
            None \<Rightarrow> Panicked s
          | Some name \<Rightarrow>
             Returned (s\<lparr>fs := (fs s)(name \<mapsto> (case fs s name of None \<Rightarrow> [] | Some c \<Rightarrow> c) @
                                              Println_bytes message),
                         events := events s @ [FileWrite name (Println_bytes message)]\<rparr>)))"

definition osFile_Sync :: "Logger state \<Rightarrow> Logger outcome" where
  "osFile_Sync s =
     (case File (lg s) of
        None \<Rightarrow> Panicked s
      | Some f \<Rightarrow>
         (case osFile f of
            None \<Rightarrow> Returned s
          | Some name \<Rightarrow> Returned (s\<lparr>events := events s @ [FileSynced name]\<rparr>)))"

text \<open>The file that \<^verbatim>\<open>os.OpenFile\<close> opened (created when it did not exist) is installed.\<close>

definition opened :: "string \<Rightarrow> Logger state \<Rightarrow> Logger state" where
  "opened path s =
     upd_File (\<lambda>f. f\<lparr>logger := Some path, osFile := Some path\<rparr>)
       (s\<lparr>fs := (fs s)(path \<mapsto> (case fs s path of None \<Rightarrow> [] | Some c \<Rightarrow> c)),
          events := events s @ [FileOpened path]\<rparr>)"

section \<open>The console\<close>

definition consoleLogger_Println :: "string \<Rightarrow> Logger state \<Rightarrow> Logger outcome" where
  "consoleLogger_Println m s =
     (if consoleLogger (lg s) then Returned (s\<lparr>events := events s @ [Stdout (Println_bytes m)]\<rparr>)
      else Panicked s)"

definition consoleLoggerErr_Println :: "string \<Rightarrow> Logger state \<Rightarrow> Logger outcome" where
  "consoleLoggerErr_Println m s =
     (if consoleLoggerErr (lg s)
      then Returned (s\<lparr>events := events s @ [Stderr (Println_bytes m)]\<rparr>)
      else Panicked s)"

text \<open>\<^verbatim>\<open>log.Logger.Fatal\<close>: \<^verbatim>\<open>Output\<close> followed by \<^verbatim>\<open>os.Exit(1)\<close>.\<close>

definition consoleLoggerErr_Fatal :: "string \<Rightarrow> Logger state \<Rightarrow> Logger outcome" where
  "consoleLoggerErr_Fatal m s =
     (if consoleLoggerErr (lg s)
      then Exited (s\<lparr>events := events s @ [Stderr (Output_bytes m)]\<rparr>)
      else Panicked s)"

section \<open>The logger (logger.go)\<close>

definition getColored :: "Logger \<Rightarrow> string \<Rightarrow> (string \<Rightarrow> string) \<Rightarrow> string" where
  "getColored l message col = (if enableColors l then col message else message)"

definition getSourceMessage :: "string \<Rightarrow> int \<Rightarrow> Logger \<Rightarrow> string" where
  "getSourceMessage fname line l =
     (if \<not> PrintSource l then []
      else
        (let fileName = drop (nat (LastIndex fname CHR ''/'' + 1)) fname @ '':'' @ Itoa line
         in '' ('' @ fileName @ '')''))"

text \<open>
  The text \<^verbatim>\<open>log\<close> builds for the file (\<open>printMessage\<close>) and for the console
  (\<open>printMessageColored\<close>), statement by statement. The second is built from the first
  after the first has received its header.
\<close>

definition printMessage :: "runtime \<Rightarrow> Logger \<Rightarrow> Level \<Rightarrow> string \<Rightarrow> any list \<Rightarrow> string" where
  "printMessage rt l level message parameters =
     (let (fname, line) = (case Caller rt (3 + FuncCallIncrement l) of
                             Some fl \<Rightarrow> fl | None \<Rightarrow> (''#unknown'', 0));
          levelName = pad_right 5 (Level_String level);
          printMessage = message;
          printMessage = (if parameters \<noteq> [] then Sprintf rt message parameters else printMessage)
      in if \<not> OnlyPrintMessage l
         then ''['' @ levelName @ ''] '' @ Format_datetime (Now rt) @
              getSourceMessage fname line l @ Prefix l @ '' - '' @ printMessage
         else printMessage)"

definition printMessageColored ::
  "runtime \<Rightarrow> Logger \<Rightarrow> Level \<Rightarrow> string \<Rightarrow> any list \<Rightarrow> string" where
  "printMessageColored rt l level message parameters =
     (let (fname, line) = (case Caller rt (3 + FuncCallIncrement l) of
                             Some fl \<Rightarrow> fl | None \<Rightarrow> (''#unknown'', 0));
          levelName = pad_right 5 (Level_String level);
          printMessageColored =
            getColored l (printMessage rt l level message parameters) (getColor level)
      in if \<not> OnlyPrintMessage l
         then getColored l (''['' @ levelName @ ''] '') (getColor level) @
              getColored l (Format_datetime (Now rt)) colCyan @
              getColored l (getSourceMessage fname line l) colPurple @
              getColored l (Prefix l) colBlueLight @
              '' - '' @ printMessageColored
         else printMessageColored)"

text \<open>
  The last statement of \<^verbatim>\<open>log\<close>, the console: \<^verbatim>\<open>if l.Level <= level { ... }\<close> with the
  text built above.
\<close>

definition log_console :: "Level \<Rightarrow> string \<Rightarrow> Logger state \<Rightarrow> Logger outcome" where
  "log_console level colored s =
     (if Level (lg s) \<le> level then
        (if level = LevelError then consoleLoggerErr_Println colored s
         else if level = LevelFatal then consoleLoggerErr_Fatal colored s
         else consoleLogger_Println colored s)
      else Returned s)"

text \<open>
  \<^verbatim>\<open>Logger.log\<close>, \<^verbatim>\<open>FileLogger.writeToFile\<close> and \<^verbatim>\<open>FileLogger.openFile\<close> call each
  other: \<^verbatim>\<open>log\<close> appends through \<^verbatim>\<open>writeToFile\<close>, which reopens through \<^verbatim>\<open>openFile\<close>,
  which reports a failure through \<^verbatim>\<open>rootLogger.Log\<close>.
\<close>

text \<open>\<^verbatim>\<open>fmt.Sprintf("Cannot access the log file '%s'\n%s", path, err.Error())\<close>.\<close>

definition open_error_text :: "string \<Rightarrow> string \<Rightarrow> string" where
  "open_error_text path err =
     ''Cannot access the log file '' @ [CHR 0x27] @ path @ [CHR 0x27, CHR 0x0A] @ err"

definition wlocked :: "Logger state \<Rightarrow> bool" where
  "wlocked s =
     (case File (lg s) of None \<Rightarrow> False
      | Some f \<Rightarrow> (case fileSync f of None \<Rightarrow> False | Some m \<Rightarrow> writer m))"

lemma RLock_not_wlocked: "on_fileSync RLock s = Returned s' \<Longrightarrow> \<not> wlocked s"
  by (auto simp: on_fileSync_def wlocked_def RLock_def split: option.splits mres.splits if_splits)

lemma Lock_wlocked: "on_fileSync Lock s = Returned s' \<Longrightarrow> wlocked s'"
  by (auto simp: on_fileSync_def wlocked_def Lock_def upd_File_def
      split: option.splits mres.splits if_splits)

function log :: "runtime \<Rightarrow> Level \<Rightarrow> string \<Rightarrow> any list \<Rightarrow> Logger state \<Rightarrow> Logger outcome"
  and writeToFile :: "runtime \<Rightarrow> string \<Rightarrow> Level \<Rightarrow> Logger state \<Rightarrow> Logger outcome"
  and openFile :: "runtime \<Rightarrow> Logger state \<Rightarrow> Logger outcome"
where
  "log rt level message parameters s =
     (case File (lg s) of
        None \<Rightarrow> Panicked s
      | Some f \<Rightarrow>
         bnd (if File_Level f \<le> level \<and> logger f \<noteq> None
              then writeToFile rt (printMessage rt (lg s) level message parameters) level s
              else Returned s)
           (log_console level (printMessageColored rt (lg s) level message parameters)))"
| "writeToFile rt message level s =
     bnd (on_fileSync RLock s) (\<lambda>s.
     bnd (on_fileSyncWrite RLock s) (\<lambda>s.
     bnd (case File (lg s) of
            None \<Rightarrow> Panicked s
          | Some f \<Rightarrow>
             if AppendDate f then
               (let currentPath = getFilePath rt f in
                case osFile f of
                  None \<Rightarrow> Panicked s
                | Some name \<Rightarrow>
                   if name \<noteq> currentPath then
                     bnd (on_fileSync RUnlock s) (\<lambda>s.
                     bnd (on_fileSyncWrite RUnlock s) (\<lambda>s.
                     bnd (on_fileSyncWrite Lock s) (\<lambda>s.
                     bnd (case File (lg s) of
                            None \<Rightarrow> Panicked s
                          | Some f \<Rightarrow>
                             (case osFile f of
                                None \<Rightarrow> Panicked s
                              | Some name \<Rightarrow>
                                 if name \<noteq> currentPath then bnd (CloseFile s) (openFile rt)
                                 else Returned s)) (\<lambda>s.
                     bnd (on_fileSyncWrite Unlock s) (\<lambda>s.
                     bnd (on_fileSync RLock s) (on_fileSyncWrite RLock))))))
                   else Returned s)
             else Returned s) (\<lambda>s.
     bnd (logger_Println message s) (\<lambda>s.
     bnd (osFile_Sync s) (\<lambda>s.
     bnd (on_fileSync RUnlock s) (\<lambda>s.
     bnd (on_fileSyncWrite RUnlock s) (\<lambda>s.
     if level = LevelFatal then CloseFile s else Returned s)))))))"
| "openFile rt s =
     (case File (lg s) of
        None \<Rightarrow> Panicked s
      | Some f \<Rightarrow>
         bnd (Returned (if fileSync f = None
                        then upd_File (\<lambda>f. f\<lparr>fileSync := Some new_RWMutex,
                                              fileSyncWrite := Some new_RWMutex\<rparr>) s
                        else s)) (\<lambda>s.
         bnd (on_fileSync Lock s) (\<lambda>s.
         bnd (let path = getFilePath rt f in
              case OpenFile_err rt path of
                None \<Rightarrow> Returned (opened path s)
              | Some err \<Rightarrow>
                 log rt LevelError (open_error_text path err) [] s)
           (on_fileSync Unlock))))"
  by pat_completeness auto

termination
  apply (relation "measure (\<lambda>x. case x of
      Inl (rt, level, message, parameters, s) \<Rightarrow> (if wlocked s then 1 else 4)
    | Inr (Inl (rt, message, level, s)) \<Rightarrow> (if wlocked s then 0 else 3)
    | Inr (Inr (rt, s)) \<Rightarrow> 2)")
     apply (auto dest: RLock_not_wlocked Lock_wlocked)
  done

declare log.simps [simp del] writeToFile.simps [simp del] openFile.simps [simp del]

text \<open>\<^verbatim>\<open>func (l *Logger) Log\<close> hands its arguments to \<^verbatim>\<open>log\<close>.\<close>

definition Log ::
  "runtime \<Rightarrow> Level \<Rightarrow> string \<Rightarrow> any list \<Rightarrow> Logger state \<Rightarrow> Logger outcome" where
  "Log rt level message parameters s = log rt level message parameters s"

text \<open>\<^verbatim>\<open>newColorConfig(enable)\<close>: the two environment overrides come before the probe.\<close>

definition newColorConfig :: "runtime \<Rightarrow> bool \<Rightarrow> string + bool" where
  "newColorConfig rt enable =
     (if enable then
        (if LookupEnv rt ''TERMINAL_DISABLE_COLORS'' \<noteq> None then Inr False
         else if LookupEnv rt ''TERMINAL_ENABLE_COLORS'' \<noteq> None then Inr True
         else isColoringSupported rt)
      else Inr False)"

text \<open>
  \<^verbatim>\<open>func (l *Logger) setup(keepFile bool)\<close>, here \<open>Logger_setup\<close>. The first statement dereferences
  \<^verbatim>\<open>l.File\<close>. The deferred \<^verbatim>\<open>recover\<close> is registered after the file has been opened or
  closed, so it catches a panic of \<^verbatim>\<open>newColorConfig\<close> only.
\<close>

definition Logger_setup :: "runtime \<Rightarrow> bool \<Rightarrow> Logger state \<Rightarrow> Logger outcome" where
  "Logger_setup rt keepFile s =
     (case File (lg s) of
        None \<Rightarrow> Panicked s
      | Some f \<Rightarrow>
         bnd (Returned (s\<lparr>lg := (lg s)\<lparr>consoleLogger := True, consoleLoggerErr := True\<rparr>\<rparr>)) (\<lambda>s.
         bnd (if TrimSpace_nonempty (Path f) \<and> \<not> keepFile then openFile rt s
              else if \<not> keepFile then CloseFile s
              else Returned s) (\<lambda>s.
         (case newColorConfig rt (ColoredOutput (lg s)) of
            Inr conf \<Rightarrow> Returned (s\<lparr>lg := (lg s)\<lparr>enableColors := conf\<rparr>\<rparr>)
          | Inl err \<Rightarrow> log rt LevelDebug ''Panic occured: %s'' [AnyString err] s))))"

definition NewLogger :: "runtime \<Rightarrow> Logger state \<Rightarrow> Logger outcome" where
  "NewLogger rt s = Logger_setup rt False s"

section \<open>Configuration from the environment (env.go, logger.go)\<close>

definition getEnvBool :: "runtime \<Rightarrow> string \<Rightarrow> bool \<Rightarrow> bool" where
  "getEnvBool rt name defaultValue =
     (case LookupEnv rt name of
        Some strVal \<Rightarrow>
          (let strVal = ToLower strVal
           in strVal = ''1'' \<or> strVal = ''true'' \<or> strVal = ''yes'' \<or> strVal = ''ja'')
      | None \<Rightarrow> defaultValue)"

definition getEnvString :: "runtime \<Rightarrow> string \<Rightarrow> string \<Rightarrow> string" where
  "getEnvString rt name defaultValue =
     (case LookupEnv rt name of Some strVal \<Rightarrow> strVal | None \<Rightarrow> defaultValue)"

text \<open>
  \<^verbatim>\<open>func GetLoggerFromEnv(defaultLogger *Logger) *Logger\<close>. The warning that
  \<^verbatim>\<open>GetLevelByName\<close> issues for a name it does not know goes to the package's default
  logger, which is not part of this state; the level it returns is what is stored.
\<close>

definition GetLoggerFromEnv :: "runtime \<Rightarrow> Logger state \<Rightarrow> Logger outcome" where
  "GetLoggerFromEnv rt s =
     (let l = lg s;
          l = l\<lparr>ColoredOutput := getEnvBool rt ''LOGGER_COLOREDOUTPUT'' (ColoredOutput l)\<rparr>;
          l = l\<lparr>Level := fst (GetLevelByName (getEnvString rt ''LOGGER_LEVEL''
                                                 (Level_String (Level l))))\<rparr>;
          l = l\<lparr>OnlyPrintMessage := getEnvBool rt ''LOGGER_ONLYPRINTMESSAGE'' (OnlyPrintMessage l)\<rparr>
      in case File l of
           None \<Rightarrow> Panicked (s\<lparr>lg := l\<rparr>)
         | Some f \<Rightarrow>
            (let f = f\<lparr>File_Level := fst (GetLevelByName (getEnvString rt ''LOGGER_FILE_LEVEL''
                                                           (Level_String (File_Level f))))\<rparr>;
                 f = f\<lparr>Path := getEnvString rt ''LOGGER_FILE_PATH'' (Path f)\<rparr>;
                 f = f\<lparr>AppendDate := getEnvBool rt ''LOGGER_FILE_APPENDDATE'' (AppendDate f)\<rparr>;
                 l = l\<lparr>File := Some f\<rparr>;
                 l = l\<lparr>PrintSource := getEnvBool rt ''LOGGER_PRINTSOURCE'' (PrintSource l)\<rparr>
             in NewLogger rt (s\<lparr>lg := l\<rparr>)))"

section \<open>The earlier logger (src/logger.go, the variant with the inline level switch)\<close>

text \<open>
  The repository holds an earlier \<^verbatim>\<open>Logger\<close> whose \<^verbatim>\<open>log\<close> names the level with a switch
  of its own and owns the file itself (\<^verbatim>\<open>LogFilePath\<close>, \<^verbatim>\<open>fileLogger\<close>, \<^verbatim>\<open>logFile\<close>), with
  the colours of src/colors.go, which pass the text through \<^verbatim>\<open>fmt.Sprintf\<close>. Its names
  carry a 0 where they would clash with the logger above.
\<close>

record Logger0 =
  PrintLevel :: Level
  LogLevel :: Level
  LogFilePath :: string
  PrintSource0 :: bool
  ColoredOutput0 :: bool
  FuncCallIncrement0 :: int
  enableColors0 :: bool
  consoleLogger0 :: bool
  consoleLoggerErr0 :: bool
  fileLogger :: "string option"
  logFile :: "string option"

definition color0 :: "runtime \<Rightarrow> string \<Rightarrow> string \<Rightarrow> string" where
  "color0 rt colorString str = Sprintf rt colorString [AnyString (Sprintf rt str [])]"

definition colPurple0 :: "runtime \<Rightarrow> string \<Rightarrow> string" where
  "colPurple0 rt = color0 rt (CHR 0x1B # ''[1;35m%s'' @ CHR 0x1B # ''[0m'')"
definition colPurpleLight0 :: "runtime \<Rightarrow> string \<Rightarrow> string" where
  "colPurpleLight0 rt = color0 rt (CHR 0x1B # ''[0;35m%s'' @ CHR 0x1B # ''[0m'')"
definition colRed0 :: "runtime \<Rightarrow> string \<Rightarrow> string" where
  "colRed0 rt = color0 rt (CHR 0x1B # ''[1;31m%s'' @ CHR 0x1B # ''[0m'')"
definition colYellow0 :: "runtime \<Rightarrow> string \<Rightarrow> string" where
  "colYellow0 rt = color0 rt (CHR 0x1B # ''[1;33m%s'' @ CHR 0x1B # ''[0m'')"
definition colBlue0 :: "runtime \<Rightarrow> string \<Rightarrow> string" where
  "colBlue0 rt = color0 rt (CHR 0x1B # ''[1;34m%s'' @ CHR 0x1B # ''[0m'')"
definition colCyan0 :: "runtime \<Rightarrow> string \<Rightarrow> string" where
  "colCyan0 rt = color0 rt (CHR 0x1B # ''[1;36m%s'' @ CHR 0x1B # ''[0m'')"
definition colGreen0 :: "runtime \<Rightarrow> string \<Rightarrow> string" where
  "colGreen0 rt = color0 rt (CHR 0x1B # ''[0;32m%s'' @ CHR 0x1B # ''[0m'')"

definition getColor0 :: "runtime \<Rightarrow> Level \<Rightarrow> string \<Rightarrow> string" where
  "getColor0 rt l =
     (if l = LevelTrace then colPurpleLight0 rt
      else if l = LevelDebug then colGreen0 rt
      else if l = LevelInfo then colBlue0 rt
      else if l = LevelWarning then colYellow0 rt
      else colRed0 rt)"

definition getColored0 :: "Logger0 \<Rightarrow> string \<Rightarrow> (string \<Rightarrow> string) \<Rightarrow> string" where
  "getColored0 l message col = (if enableColors0 l then col message else message)"

definition getSourceMessage0 :: "string \<Rightarrow> int \<Rightarrow> Logger0 \<Rightarrow> string" where
  "getSourceMessage0 fname line l =
     (if \<not> PrintSource0 l then []
      else
        (let fileName = drop (nat (LastIndex fname CHR ''/'' + 1)) fname @ '':'' @ Itoa line
         in '' ('' @ fileName @ '')''))"

definition CloseFile0 :: "Logger0 state \<Rightarrow> Logger0 outcome" where
  "CloseFile0 s =
     (case logFile (lg s) of
        None \<Rightarrow> Returned s
      | Some name \<Rightarrow>
         Returned (s\<lparr>lg := (lg s)\<lparr>logFile := None, fileLogger := None\<rparr>,
                     events := events s @ [FileClosed name]\<rparr>))"

definition fileLogger_Println :: "string \<Rightarrow> Logger0 state \<Rightarrow> Logger0 outcome" where
  "fileLogger_Println message s =
     (case fileLogger (lg s) of
        None \<Rightarrow> Panicked s
      | Some name \<Rightarrow>
         Returned (s\<lparr>fs := (fs s)(name \<mapsto> (case fs s name of None \<Rightarrow> [] | Some c \<Rightarrow> c) @
                                          Println_bytes message),
                     events := events s @ [FileWrite name (Println_bytes message)]\<rparr>))"

definition logFile_Sync :: "Logger0 state \<Rightarrow> Logger0 outcome" where
  "logFile_Sync s =
     (case logFile (lg s) of
        None \<Rightarrow> Returned s
      | Some name \<Rightarrow> Returned (s\<lparr>events := events s @ [FileSynced name]\<rparr>))"

definition log0_console :: "Level \<Rightarrow> string \<Rightarrow> Logger0 state \<Rightarrow> Logger0 outcome" where
  "log0_console level colored s =
     (if PrintLevel (lg s) \<le> level then
        (if level = LevelError then
           (if consoleLoggerErr0 (lg s)
            then Returned (s\<lparr>events := events s @ [Stderr (Println_bytes colored)]\<rparr>)
            else Panicked s)
         else if level = LevelFatal then
           (if consoleLoggerErr0 (lg s)
            then Exited (s\<lparr>events := events s @ [Stderr (Output_bytes colored)]\<rparr>)
            else Panicked s)
         else
           (if consoleLogger0 (lg s)
            then Returned (s\<lparr>events := events s @ [Stdout (Println_bytes colored)]\<rparr>)
            else Panicked s))
      else Returned s)"

text \<open>
  \<^verbatim>\<open>func (l *Logger) log\<close> of that variant. A level the switch does not name leaves
  \<^verbatim>\<open>levelName\<close> empty; the text is then prefixed (the verb \<^verbatim>\<open>%d\<close> prints the number of
  the level) and the level becomes \<^verbatim>\<open>LevelWarning\<close>.
\<close>

definition log0 ::
  "runtime \<Rightarrow> Level \<Rightarrow> string \<Rightarrow> any list \<Rightarrow> Logger0 state \<Rightarrow> Logger0 outcome" where
  "log0 rt level message parameters s =
     (let l = lg s;
          (fname, line) = (case Caller rt (3 + FuncCallIncrement0 l) of
                             Some fl \<Rightarrow> fl | None \<Rightarrow> (''#unknown'', 0));
          levelName =
            (if level = LevelTrace then ''TRACE''
             else if level = LevelDebug then ''DEBUG''
             else if level = LevelInfo then ''INFO ''
             else if level = LevelWarning then ''WARN ''
             else if level = LevelError then ''ERROR''
             else if level = LevelFatal then ''FATAL''
             else []);
          (message, levelName, level) =
            (if levelName = []
             then (''Invalid level value given: '' @ digits (unat level) @
                   ''. Original message: '' @ message, ''WARN '', LevelWarning)
             else (message, levelName, level));
          printMessage = ''['' @ levelName @ ''] '' @ Format_datetime (Now rt) @
                         getSourceMessage0 fname line l @ '' - '' @ Sprintf rt message parameters;
          printMessageColored =
            getColored0 l (''['' @ levelName @ ''] '') (getColor0 rt level) @
            getColored0 l (Format_datetime (Now rt)) (colCyan0 rt) @
            getColored0 l (getSourceMessage0 fname line l) (colPurple0 rt) @ '' - '' @
            getColored0 l (Sprintf rt message parameters) (getColor0 rt level)
      in bnd (if LogLevel l \<le> level \<and> fileLogger l \<noteq> None then
                bnd (fileLogger_Println printMessage s) (\<lambda>s.
                bnd (logFile_Sync s) (\<lambda>s.
                if level = LevelFatal then CloseFile0 s else Returned s))
              else Returned s)
           (log0_console level printMessageColored))"

definition Log0 ::
  "runtime \<Rightarrow> Level \<Rightarrow> string \<Rightarrow> any list \<Rightarrow> Logger0 state \<Rightarrow> Logger0 outcome" where
  "Log0 rt level message parameters s = log0 rt level message parameters s"

section \<open>Notions used to state the properties\<close>

text \<open>The console writes among the events.\<close>

fun is_console :: "event \<Rightarrow> bool" where
  "is_console (Stdout b) = True"
| "is_console (Stderr b) = True"
| "is_console e = False"

definition console :: "event list \<Rightarrow> event list" where
  "console es = filter is_console es"

text \<open>
  The sink holds the open handle \<open>n\<close> and none of its locks is held: the state in which
  \<^verbatim>\<open>openFile\<close> and \<^verbatim>\<open>writeToFile\<close> leave it.
\<close>

definition sink_idle :: "FileLogger \<Rightarrow> string \<Rightarrow> bool" where
  "sink_idle f n =
     (logger f = Some n \<and> osFile f = Some n \<and> fileSync f = Some new_RWMutex \<and>
      fileSyncWrite f = Some new_RWMutex)"

text \<open>
  The sink is absent, or idle with a handle that is either current or can be replaced:
  when the date has moved on, the file of the new date opens.
\<close>

definition sink_ok :: "runtime \<Rightarrow> FileLogger \<Rightarrow> bool" where
  "sink_ok rt f =
     (case logger f of
        None \<Rightarrow> True
      | Some n \<Rightarrow>
         sink_idle f n \<and>
         (if AppendDate f \<and> n \<noteq> getFilePath rt f
          then OpenFile_err rt (getFilePath rt f) = None else True))"

text \<open>The file the next append of an idle sink goes to.\<close>

definition target :: "runtime \<Rightarrow> FileLogger \<Rightarrow> string \<Rightarrow> string" where
  "target rt f n = (if AppendDate f \<and> n \<noteq> getFilePath rt f then getFilePath rt f else n)"

definition content :: "Logger state \<Rightarrow> string \<Rightarrow> string" where
  "content s n = (case fs s n of None \<Rightarrow> [] | Some c \<Rightarrow> c)"

text \<open>
  The state an append to an idle sink leaves when nothing fails: the handle replaced when
  the date has moved on, the line written and synced, the handle closed after a Fatal line.
\<close>

definition after_append ::
  "runtime \<Rightarrow> FileLogger \<Rightarrow> string \<Rightarrow> string \<Rightarrow> Level \<Rightarrow> Logger state \<Rightarrow> Logger state" where
  "after_append rt f n message level s =
     \<lparr>lg = (lg s)\<lparr>File := Some (if level = LevelFatal
                                   then f\<lparr>logger := None, osFile := None\<rparr>
                                   else f\<lparr>logger := Some (target rt f n),
                                          osFile := Some (target rt f n)\<rparr>)\<rparr>,
      fs = (fs s)(target rt f n \<mapsto> content s (target rt f n) @ Println_bytes message),
      events = events s @
        (if AppendDate f \<and> n \<noteq> getFilePath rt f
         then [FileClosed n, FileOpened (getFilePath rt f)] else []) @
        [FileWrite (target rt f n) (Println_bytes message), FileSynced (target rt f n)] @
        (if level = LevelFatal then [FileClosed (target rt f n)] else [])\<rparr>"

text \<open>Two states with the same console level and the same file level.\<close>

definition same_levels :: "Logger state \<Rightarrow> Logger state \<Rightarrow> bool" where
  "same_levels s s' =
     (Level (lg s') = Level (lg s) \<and>
      map_option File_Level (File (lg s')) = map_option File_Level (File (lg s)))"

subsection \<open>Concrete inputs\<close>

definition ex_rt :: runtime where
  "ex_rt = \<lparr>Now = \<lparr>Year = 2024, Month = 1, Day = 2, Hour = 3, Minute = 4, Second = 5\<rparr>,
            OpenFile_err = (\<lambda>p. None), LookupEnv = (\<lambda>v. None), Caller = (\<lambda>k. None),
            Sprintf = (\<lambda>t a. t), isColoringSupported = Inr False\<rparr>"

definition ex_rt_next :: runtime where
  "ex_rt_next = ex_rt\<lparr>Now := (Now ex_rt)\<lparr>Day := 3\<rparr>\<rparr>"

definition ex_rt_denied :: runtime where
  "ex_rt_denied = ex_rt_next\<lparr>OpenFile_err := (\<lambda>p. Some ''permission denied'')\<rparr>"

definition ex_sink :: FileLogger where
  "ex_sink = \<lparr>File_Level = LevelDebug, Path = ''app.log'', AppendDate = True, fileSync = None,
              fileSyncWrite = None, logger = None, osFile = None\<rparr>"

definition ex_logger :: Logger where
  "ex_logger = \<lparr>Level = LevelError, ColoredOutput = False, PrintSource = False,
                OnlyPrintMessage = False, FuncCallIncrement = 0, Prefix = [],
                File = Some ex_sink, enableColors = False, consoleLogger = False,
                consoleLoggerErr = False\<rparr>"

definition ex_state :: "Logger state" where
  "ex_state = \<lparr>lg = ex_logger, fs = (\<lambda>p. None), events = []\<rparr>"

text \<open>The sink and the state that \<open>NewLogger ex_rt ex_state\<close> returns.\<close>

definition ex_open_sink :: FileLogger where
  "ex_open_sink = ex_sink\<lparr>fileSync := Some new_RWMutex, fileSyncWrite := Some new_RWMutex,
                          logger := Some ''app.log.2024-01-02'',
                          osFile := Some ''app.log.2024-01-02''\<rparr>"

definition ex_ready :: "Logger state" where
  "ex_ready = \<lparr>lg = ex_logger\<lparr>File := Some ex_open_sink, consoleLogger := True,
                                consoleLoggerErr := True\<rparr>,
               fs = (\<lambda>p. None)(''app.log.2024-01-02'' \<mapsto> []),
               events = [FileOpened ''app.log.2024-01-02'']\<rparr>"

text \<open>
  The fresh logger once its console loggers are installed (where \<^verbatim>\<open>setup\<close> calls
  \<^verbatim>\<open>openFile\<close>), the ready logger with \<^verbatim>\<open>OnlyPrintMessage\<close> on, and an earlier logger.
\<close>

definition ex_console :: "Logger state" where
  "ex_console = ex_state\<lparr>lg := ex_logger\<lparr>consoleLogger := True, consoleLoggerErr := True\<rparr>\<rparr>"

definition ex_plain :: "Logger state" where
  "ex_plain = ex_ready\<lparr>lg := (lg ex_ready)\<lparr>OnlyPrintMessage := True\<rparr>\<rparr>"

definition ex_earlier :: "Logger0 state" where
  "ex_earlier =
     \<lparr>lg = \<lparr>PrintLevel = LevelError, LogLevel = LevelDebug, LogFilePath = ''app.log'',
             PrintSource0 = False, ColoredOutput0 = False, FuncCallIncrement0 = 0,
             enableColors0 = False, consoleLogger0 = True, consoleLoggerErr0 = True,
             fileLogger = Some ''app.log'', logFile = Some ''app.log''\<rparr>,
      fs = (\<lambda>p. None)(''app.log'' \<mapsto> []), events = []\<rparr>"

section \<open>Properties\<close>

subsection \<open>Strings and paths\<close>

lemma LastIndex_from_absent: "c \<notin> set xs \<Longrightarrow> LastIndex_from c xs i found = found"
  by (induction xs arbitrary: i found) auto

lemma LastIndex_from_present:
  "c \<in> set xs \<Longrightarrow>
   \<exists>k. k < length xs \<and> LastIndex_from c xs i found = int (i + k) \<and> xs ! k = c \<and>
       c \<notin> set (drop (Suc k) xs)"
proof (induction xs arbitrary: i found)
  case Nil
  then show ?case by simp
next
  case (Cons x xs)
  show ?case
  proof (cases "c \<in> set xs")
    case True
    from Cons.IH [OF True, of "Suc i" "if x = c then int i else found"]
    obtain k where k: "k < length xs"
      "LastIndex_from c xs (Suc i) (if x = c then int i else found) = int (Suc i + k)"
      "xs ! k = c" "c \<notin> set (drop (Suc k) xs)"
      by blast
    show ?thesis
      by (rule exI [of _ "Suc k"]) (use k in simp)
  next
    case False
    with Cons.prems have "x = c" by simp
    with False show ?thesis
      by (intro exI [of _ 0]) (simp add: LastIndex_from_absent)
  qed
qed

lemma LastIndex_absent: "c \<notin> set p \<Longrightarrow> LastIndex p c = - 1"
  by (simp add: LastIndex_def LastIndex_from_absent)

lemma LastIndex_present:
  assumes "c \<in> set p"
  shows "0 \<le> LastIndex p c" and "LastIndex p c + 1 < int (length p) \<longleftrightarrow> last p \<noteq> c"
proof -
  from LastIndex_from_present [OF assms, of 0 "- 1"]
  obtain k where k: "k < length p" "LastIndex p c = int k" "p ! k = c"
    "c \<notin> set (drop (Suc k) p)"
    by (auto simp: LastIndex_def)
  show "0 \<le> LastIndex p c" using k by simp
  have ne: "p \<noteq> []" using assms by auto
  show "LastIndex p c + 1 < int (length p) \<longleftrightarrow> last p \<noteq> c"
  proof (cases "Suc k < length p")
    case True
    then have "last p = last (drop (Suc k) p)" by simp
    moreover have "drop (Suc k) p \<noteq> []" using True by simp
    ultimately have "last p \<in> set (drop (Suc k) p)" by (metis last_in_set)
    with k True show ?thesis by auto
  next
    case False
    with k have "k = length p - 1" by simp
    with k ne have "last p = c" by (simp add: last_conv_nth)
    with False k show ?thesis by simp
  qed
qed

lemma length_digits_le: "n < 10 ^ w \<Longrightarrow> 0 < w \<Longrightarrow> length (digits n) \<le> w"
proof (induction w arbitrary: n)
  case 0
  then show ?case by simp
next
  case (Suc w)
  show ?case
  proof (cases "n < 10")
    case True
    then show ?thesis by (simp add: digits.simps [of n])
  next
    case False
    with Suc.prems have w: "0 < w" by (cases w) auto
    from Suc.prems have "n div 10 < 10 ^ w" by (simp add: less_mult_imp_div_less)
    from Suc.IH [OF this w] False show ?thesis by (simp add: digits.simps [of n])
  qed
qed

lemma length_pad_zero: "n < 10 ^ w \<Longrightarrow> 0 < w \<Longrightarrow> length (pad_zero w n) = w"
  using length_digits_le [of n w] by (simp add: pad_zero_def)

lemma digit_char_decimal: "digit_char n \<in> set ''0123456789''"
proof -
  have "n mod 10 < length ''0123456789''" by simp
  then show ?thesis unfolding digit_char_def by (rule nth_mem)
qed

lemma digits_decimal: "set (digits n) \<subseteq> set ''0123456789''"
proof (induction n rule: digits.induct)
  case (1 n)
  show ?case
  proof (cases "n < 10")
    case True
    then show ?thesis using digit_char_decimal [of n] by (simp add: digits.simps [of n])
  next
    case False
    with "1" have "set (digits (n div 10)) \<subseteq> set ''0123456789''" by simp
    with False show ?thesis
      using digit_char_decimal [of n] by (simp add: digits.simps [of n])
  qed
qed

lemma pad_zero_decimal: "set (pad_zero w n) \<subseteq> set ''0123456789''"
  using digits_decimal [of n] by (auto simp: pad_zero_def)

text \<open>
  C4. \<^verbatim>\<open>getFilePath\<close> turns every backslash of the configured path into a slash. With
  \<^verbatim>\<open>AppendDate\<close> off that is the result. With \<^verbatim>\<open>AppendDate\<close> on, the current date follows:
  after a dot when the path has no slash, or has a slash that is not its last character;
  directly, without a dot, when the path ends with a slash. The date is the year in four
  digits, the month and the day in two, separated by dashes (for a year below 10000).
\<close>

theorem getFilePath_rule:
  "getFilePath rt l =
     (let p = map (\<lambda>c. if c = CHR 0x5C then CHR ''/'' else c) (Path l);
          date = pad_zero 4 (Year (Now rt)) @ ''-'' @ pad_zero 2 (Month (Now rt)) @ ''-'' @
                 pad_zero 2 (Day (Now rt))
      in if \<not> AppendDate l then p
         else if CHR ''/'' \<notin> set p then p @ ''.'' @ date
         else if last p = CHR ''/'' then p @ date
         else p @ ''.'' @ date) \<and>
   (Year (Now rt) < 10000 \<and> Month (Now rt) \<le> 12 \<and> Day (Now rt) \<le> 31 \<longrightarrow>
      length (pad_zero 4 (Year (Now rt))) = 4 \<and> length (pad_zero 2 (Month (Now rt))) = 2 \<and>
      length (pad_zero 2 (Day (Now rt))) = 2 \<and>
      set (pad_zero 4 (Year (Now rt)) @ pad_zero 2 (Month (Now rt)) @ pad_zero 2 (Day (Now rt)))
        \<subseteq> set ''0123456789'')"
proof (intro conjI impI)
  let ?p = "ReplaceAll_backslash (Path l)"
  show "getFilePath rt l =
     (let p = map (\<lambda>c. if c = CHR 0x5C then CHR ''/'' else c) (Path l);
          date = pad_zero 4 (Year (Now rt)) @ ''-'' @ pad_zero 2 (Month (Now rt)) @ ''-'' @
                 pad_zero 2 (Day (Now rt))
      in if \<not> AppendDate l then p
         else if CHR ''/'' \<notin> set p then p @ ''.'' @ date
         else if last p = CHR ''/'' then p @ date
         else p @ ''.'' @ date)"
  proof (cases "CHR ''/'' \<in> set ?p")
    case True
    from LastIndex_present [OF True] show ?thesis
      using True
      by (auto simp: getFilePath_def getFileDate_def Format_date_def Let_def
          ReplaceAll_backslash_def)
  next
    case False
    from LastIndex_absent [OF False] show ?thesis
      using False
      by (auto simp: getFilePath_def getFileDate_def Format_date_def Let_def
          ReplaceAll_backslash_def)
  qed
next
  assume b: "Year (Now rt) < 10000 \<and> Month (Now rt) \<le> 12 \<and> Day (Now rt) \<le> 31"
  then show "length (pad_zero 4 (Year (Now rt))) = 4" by (intro length_pad_zero) auto
  from b show "length (pad_zero 2 (Month (Now rt))) = 2" by (intro length_pad_zero) auto
  from b show "length (pad_zero 2 (Day (Now rt))) = 2" by (intro length_pad_zero) auto
  show "set (pad_zero 4 (Year (Now rt)) @ pad_zero 2 (Month (Now rt)) @
             pad_zero 2 (Day (Now rt))) \<subseteq> set ''0123456789''"
    using pad_zero_decimal [of 4 "Year (Now rt)"] pad_zero_decimal [of 2 "Month (Now rt)"]
      pad_zero_decimal [of 2 "Day (Now rt)"]
    by simp
qed

lemma ex_dates:
  "Format_date (Now ex_rt) = ''2024-01-02''"
  "Format_date (Now ex_rt_next) = ''2024-01-03''"
  "Format_date (Now ex_rt_denied) = ''2024-01-03''"
  by (simp_all add: ex_rt_def ex_rt_next_def ex_rt_denied_def Format_date_def pad_zero_def
      digits.simps digit_char_def)

theorem getFilePath_rule_witness:
  "getFilePath ex_rt ex_sink = ''app.log.2024-01-02'' \<and>
   getFilePath ex_rt (ex_sink\<lparr>Path := ''logs'' @ [CHR 0x5C]\<rparr>) = ''logs/2024-01-02'' \<and>
   getFilePath ex_rt (ex_sink\<lparr>Path := ''./logs''\<rparr>) = ''./logs.2024-01-02'' \<and>
   length (pad_zero 4 (Year (Now ex_rt))) = 4"
  using getFilePath_rule [of ex_rt ex_sink]
    getFilePath_rule [of ex_rt "ex_sink\<lparr>Path := ''logs'' @ [CHR 0x5C]\<rparr>"]
    getFilePath_rule [of ex_rt "ex_sink\<lparr>Path := ''./logs''\<rparr>"] ex_dates(1)
  by (simp add: ex_sink_def Format_date_def) (simp add: ex_rt_def)

subsection \<open>Steps of the sink and of the logger\<close>

lemma upd_File_eq:
  "File (lg s) = Some f \<Longrightarrow> upd_File g s = s\<lparr>lg := (lg s)\<lparr>File := Some (g f)\<rparr>\<rparr>"
  by (simp add: upd_File_def)

lemma getFilePath_upd [simp]:
  "getFilePath rt (f\<lparr>fileSync := a\<rparr>) = getFilePath rt f"
  "getFilePath rt (f\<lparr>fileSyncWrite := b\<rparr>) = getFilePath rt f"
  "getFilePath rt (f\<lparr>logger := c\<rparr>) = getFilePath rt f"
  "getFilePath rt (f\<lparr>osFile := d\<rparr>) = getFilePath rt f"
  by (simp_all add: getFilePath_def)

lemma getSourceMessage_upd [simp]:
  "getSourceMessage fname line (l\<lparr>File := x\<rparr>) = getSourceMessage fname line l"
  "getSourceMessage fname line (l\<lparr>Level := c\<rparr>) = getSourceMessage fname line l"
  by (simp_all add: getSourceMessage_def)

lemma getColored_upd [simp]:
  "getColored (l\<lparr>File := x\<rparr>) = getColored l"
  "getColored (l\<lparr>Level := c\<rparr>) = getColored l"
  by (simp_all add: getColored_def fun_eq_iff)

lemma printMessage_upd [simp]:
  "printMessage rt (l\<lparr>File := x\<rparr>) = printMessage rt l"
  "printMessage rt (l\<lparr>Level := c\<rparr>) = printMessage rt l"
  by (simp_all add: printMessage_def fun_eq_iff Let_def split: prod.splits)

lemma printMessageColored_upd [simp]:
  "printMessageColored rt (l\<lparr>File := x\<rparr>) = printMessageColored rt l"
  "printMessageColored rt (l\<lparr>Level := c\<rparr>) = printMessageColored rt l"
  by (simp_all add: printMessageColored_def fun_eq_iff Let_def split: prod.splits)

lemma sink_idle_restore:
  "sink_idle f n \<Longrightarrow>
   f\<lparr>fileSync := Some \<lparr>writer = False, readers = 0\<rparr>,
     fileSyncWrite := Some \<lparr>writer = False, readers = 0\<rparr>\<rparr> = f"
  by (simp add: sink_idle_def new_RWMutex_def)

lemmas step_defs = on_fileSync_def on_fileSyncWrite_def RLock_def RUnlock_def Lock_def
  Unlock_def new_RWMutex_def logger_Println_def osFile_Sync_def CloseFile_def upd_File_eq Let_def

lemma writeToFile_current:
  assumes "File (lg s) = Some f" "sink_idle f n" "AppendDate f \<longrightarrow> n = getFilePath rt f"
  shows "writeToFile rt message level s =
           Returned \<lparr>lg = (if level = LevelFatal
                           then (lg s)\<lparr>File := Some (f\<lparr>logger := None, osFile := None\<rparr>)\<rparr>
                           else lg s),
                     fs = (fs s)(n \<mapsto> (case fs s n of None \<Rightarrow> [] | Some c \<Rightarrow> c) @
                                          Println_bytes message),
                     events = events s @ [FileWrite n (Println_bytes message), FileSynced n] @
                              (if level = LevelFatal then [FileClosed n] else [])\<rparr>"
  using assms sink_idle_restore [OF assms(2)]
  by (simp add: writeToFile.simps sink_idle_def step_defs)

lemma sink_idle_reopened:
  "sink_idle f n \<Longrightarrow>
   f\<lparr>fileSync := Some \<lparr>writer = False, readers = 0\<rparr>,
     fileSyncWrite := Some \<lparr>writer = False, readers = 0\<rparr>, osFile := x, logger := y\<rparr> =
   f\<lparr>logger := y, osFile := x\<rparr>"
  by (simp add: sink_idle_def new_RWMutex_def)

lemma writeToFile_rotate:
  assumes "File (lg s) = Some f" "sink_idle f n" "AppendDate f" "n \<noteq> getFilePath rt f"
    "OpenFile_err rt (getFilePath rt f) = None"
  shows "writeToFile rt message level s =
           Returned \<lparr>lg = (lg s)\<lparr>File := Some (if level = LevelFatal
                                                  then f\<lparr>logger := None, osFile := None\<rparr>
                                                  else f\<lparr>logger := Some (getFilePath rt f),
                                                         osFile := Some (getFilePath rt f)\<rparr>)\<rparr>,
                     fs = (fs s)(getFilePath rt f \<mapsto>
                            (case fs s (getFilePath rt f) of None \<Rightarrow> [] | Some c \<Rightarrow> c) @
                            Println_bytes message),
                     events = events s @ [FileClosed n, FileOpened (getFilePath rt f),
                                FileWrite (getFilePath rt f) (Println_bytes message),
                                FileSynced (getFilePath rt f)] @
                              (if level = LevelFatal then [FileClosed (getFilePath rt f)] else [])\<rparr>"
  using assms sink_idle_reopened [OF assms(2)]
  by (simp add: writeToFile.simps openFile.simps opened_def sink_idle_def step_defs)

lemma writeToFile_rotate_fail:
  assumes "File (lg s) = Some f" "sink_idle f n" "AppendDate f" "n \<noteq> getFilePath rt f"
    "OpenFile_err rt (getFilePath rt f) = Some err" "consoleLoggerErr (lg s)"
  shows "writeToFile rt message level s =
           Panicked \<lparr>lg = (lg s)\<lparr>File := Some (f\<lparr>fileSync := Some \<lparr>writer = False, readers = 1\<rparr>,
                          fileSyncWrite := Some \<lparr>writer = False, readers = 1\<rparr>,
                          osFile := None, logger := None\<rparr>)\<rparr>,
                     fs = fs s,
                     events = events s @ [FileClosed n] @
                       (if Level (lg s) \<le> LevelError
                        then [Stderr (Println_bytes (printMessageColored rt (lg s) LevelError
                                (open_error_text (getFilePath rt f) err) []))]
                        else [])\<rparr>"
  using assms
  by (simp add: writeToFile.simps openFile.simps log.simps log_console_def
      consoleLoggerErr_Println_def sink_idle_def step_defs open_error_text_def)

lemma log_skip:
  assumes "File (lg s) = Some f" "\<not> (File_Level f \<le> level \<and> logger f \<noteq> None)"
  shows "log rt level message parameters s =
           log_console level (printMessageColored rt (lg s) level message parameters) s"
  using assms by (auto simp add: log.simps)

lemma log_write:
  assumes "File (lg s) = Some f" "File_Level f \<le> level" "logger f \<noteq> None"
  shows "log rt level message parameters s =
           bnd (writeToFile rt (printMessage rt (lg s) level message parameters) level s)
             (log_console level (printMessageColored rt (lg s) level message parameters))"
  using assms by (auto simp add: log.simps)


lemma writeToFile_rotate_fail_any:
  assumes "File (lg s) = Some f" "sink_idle f n" "AppendDate f" "n \<noteq> getFilePath rt f"
    "OpenFile_err rt (getFilePath rt f) = Some err"
  shows "\<exists>s'. writeToFile rt message level s = Panicked s' \<and> fs s' = fs s \<and>
           events s' = events s @ [FileClosed n] @
             (if Level (lg s) \<le> LevelError \<and> consoleLoggerErr (lg s)
              then [Stderr (Println_bytes (printMessageColored rt (lg s) LevelError
                      (open_error_text (getFilePath rt f) err) []))]
              else [])"
  using assms
  by (simp add: writeToFile.simps openFile.simps log.simps log_console_def
      consoleLoggerErr_Println_def sink_idle_def step_defs)

lemma getFilePath_date:
  "AppendDate f \<Longrightarrow> getFileDate rt2 \<noteq> getFileDate rt1 \<Longrightarrow>
   getFilePath rt2 f \<noteq> getFilePath rt1 f"
  by (auto simp: getFilePath_def Let_def)

lemma sink_idle_after:
  "sink_idle f n \<Longrightarrow> sink_idle (f\<lparr>logger := Some p, osFile := Some p\<rparr>) p"
  by (simp add: sink_idle_def)

lemma sink_idle_same:
  "sink_idle f n \<Longrightarrow> f\<lparr>logger := Some n, osFile := Some n\<rparr> = f"
  by (simp add: sink_idle_def)

lemma writeToFile_ok:
  assumes "File (lg s) = Some f" "sink_idle f n"
    "AppendDate f \<and> n \<noteq> getFilePath rt f \<longrightarrow> OpenFile_err rt (getFilePath rt f) = None"
  shows "writeToFile rt message level s = Returned (after_append rt f n message level s)"
proof (cases "AppendDate f \<and> n \<noteq> getFilePath rt f")
  case True
  with assms writeToFile_rotate [of s f n rt message level] show ?thesis
    by (simp add: after_append_def target_def content_def)
next
  case False
  then have "AppendDate f \<longrightarrow> n = getFilePath rt f" by simp
  from writeToFile_current [OF assms(1,2) this, of message level] False
    sink_idle_same [OF assms(2)] assms(1)
  show ?thesis
    by (auto simp: after_append_def target_def content_def)
qed

lemma log_ok:
  assumes "File (lg s) = Some f" "sink_ok rt f"
  shows "log rt level message parameters s =
           log_console level (printMessageColored rt (lg s) level message parameters)
             (case logger f of
                None \<Rightarrow> s
              | Some n \<Rightarrow>
                 if File_Level f \<le> level
                 then after_append rt f n (printMessage rt (lg s) level message parameters) level s
                 else s)"
proof (cases "logger f")
  case None
  with assms show ?thesis by (simp add: log.simps)
next
  case (Some n)
  with assms have i: "sink_idle f n"
    and o: "AppendDate f \<and> n \<noteq> getFilePath rt f \<longrightarrow> OpenFile_err rt (getFilePath rt f) = None"
    by (auto simp: sink_ok_def split: if_splits)
  from writeToFile_ok [OF assms(1) i o] Some assms(1) show ?thesis
    by (simp add: log.simps)
qed

lemma after_append_simps [simp]:
  "Level (lg (after_append rt f n message level s)) = Level (lg s)"
  "consoleLogger (lg (after_append rt f n message level s)) = consoleLogger (lg s)"
  "consoleLoggerErr (lg (after_append rt f n message level s)) = consoleLoggerErr (lg s)"
  "console (events (after_append rt f n message level s)) = console (events s)"
  "fs (after_append rt f n message level s) =
     (fs s)(target rt f n \<mapsto> content s (target rt f n) @ Println_bytes message)"
  by (simp_all add: after_append_def console_def)

lemma log_console_installed:
  assumes "consoleLogger (lg s)" "consoleLoggerErr (lg s)"
  shows "log_console level c s =
     (if Level (lg s) \<le> level then
        (if level = LevelError then Returned (s\<lparr>events := events s @ [Stderr (Println_bytes c)]\<rparr>)
         else if level = LevelFatal then Exited (s\<lparr>events := events s @ [Stderr (Output_bytes c)]\<rparr>)
         else Returned (s\<lparr>events := events s @ [Stdout (Println_bytes c)]\<rparr>))
      else Returned s)"
  using assms
  by (simp add: log_console_def consoleLogger_Println_def consoleLoggerErr_Println_def
      consoleLoggerErr_Fatal_def)

lemma console_simps [simp]:
  "console (xs @ ys) = console xs @ console ys"
  "console [Stdout b] = [Stdout b]"
  "console [Stderr b] = [Stderr b]"
  "console [] = []"
  by (simp_all add: console_def)

lemma Level_distinct [simp]: "LevelFatal \<noteq> LevelError" "LevelError \<noteq> LevelFatal"
  by (simp_all add: Level_defs)

lemma log_console_fs [simp]: "fs (final (log_console level c s)) = fs s"
  by (simp add: log_console_def consoleLogger_Println_def consoleLoggerErr_Println_def
      consoleLoggerErr_Fatal_def)

lemma log_console_closed: "\<not> Level (lg s) \<le> level \<Longrightarrow> log_console level c s = Returned s"
  by (simp add: log_console_def)

lemma content_upd [simp]: "content (s\<lparr>lg := l\<rparr>) = content s"
  by (simp add: content_def fun_eq_iff)

subsection \<open>The concrete inputs\<close>

lemma ex_paths:
  "getFilePath ex_rt ex_open_sink = ''app.log.2024-01-02''"
  "getFilePath ex_rt_next ex_open_sink = ''app.log.2024-01-03''"
  "getFilePath ex_rt_denied ex_open_sink = ''app.log.2024-01-03''"
  "getFilePath ex_rt ex_sink = ''app.log.2024-01-02''"
  "getFilePath ex_rt_denied ex_sink = ''app.log.2024-01-03''"
  by (simp_all add: getFilePath_def getFileDate_def ex_dates ex_open_sink_def ex_sink_def
      ReplaceAll_backslash_def LastIndex_def)

lemma ex_ready_facts:
  "File (lg ex_ready) = Some ex_open_sink"
  "sink_idle ex_open_sink ''app.log.2024-01-02''"
  "AppendDate ex_open_sink"
  "logger ex_open_sink = Some ''app.log.2024-01-02''"
  "File_Level ex_open_sink = LevelDebug"
  "Level (lg ex_ready) = LevelError"
  "consoleLogger (lg ex_ready)"
  "consoleLoggerErr (lg ex_ready)"
  "events ex_ready = [FileOpened ''app.log.2024-01-02'']"
  "fs ex_ready = (\<lambda>p. None)(''app.log.2024-01-02'' \<mapsto> [])"
  by (simp_all add: ex_ready_def ex_open_sink_def ex_sink_def ex_logger_def sink_idle_def)

lemma ex_runtime_facts:
  "OpenFile_err ex_rt p = None"
  "OpenFile_err ex_rt_next p = None"
  "OpenFile_err ex_rt_denied p = Some ''permission denied''"
  by (simp_all add: ex_rt_def ex_rt_next_def ex_rt_denied_def)

lemma ex_file_dates:
  "getFileDate ex_rt = ''2024-01-02''"
  "getFileDate ex_rt_next = ''2024-01-03''"
  "getFileDate ex_rt_denied = ''2024-01-03''"
  by (simp_all add: getFileDate_def ex_dates)

lemma ex_sink_ok: "sink_ok ex_rt ex_open_sink" "sink_ok ex_rt_next ex_open_sink"
  by (simp_all add: sink_ok_def ex_ready_facts ex_paths ex_runtime_facts)

lemma ex_target:
  "target ex_rt ex_open_sink ''app.log.2024-01-02'' = ''app.log.2024-01-02''"
  "target ex_rt_next ex_open_sink ''app.log.2024-01-02'' = ''app.log.2024-01-03''"
  by (simp_all add: target_def ex_paths ex_ready_facts)

lemma ex_datetime: "Format_datetime (Now ex_rt) = ''2024-01-02 03:04:05''"
  by (simp add: Format_datetime_def ex_dates)
    (simp add: ex_rt_def pad_zero_def digits.simps digit_char_def)

lemma ex_level_names:
  "pad_right 5 (Level_String LevelDebug) = ''DEBUG''"
  "pad_right 5 (Level_String LevelWarning) = ''WARN ''"
  "pad_right 5 (Level_String LevelError) = ''ERROR''"
  "pad_right 5 (Level_String LevelFatal) = ''FATAL''"
  "pad_right 5 (Level_String 7) = ''DEBUG''"
  by (simp_all add: pad_right_def Level_String_def Level_defs)

lemma ex_flags:
  "Caller ex_rt k = None"
  "PrintSource (lg ex_ready) = False"
  "OnlyPrintMessage (lg ex_ready) = False"
  "Prefix (lg ex_ready) = []"
  "enableColors (lg ex_ready) = False"
  by (simp_all add: ex_rt_def ex_ready_def ex_logger_def)

lemma ex_printMessage:
  "printMessage ex_rt (lg ex_ready) level ''x'' [] =
     ''['' @ pad_right 5 (Level_String level) @ ''] 2024-01-02 03:04:05 - x''"
  "printMessageColored ex_rt (lg ex_ready) level ''x'' [] =
     ''['' @ pad_right 5 (Level_String level) @ ''] 2024-01-02 03:04:05 - ['' @
     pad_right 5 (Level_String level) @ ''] 2024-01-02 03:04:05 - x''"
  by (simp_all add: printMessage_def printMessageColored_def ex_datetime getSourceMessage_def
      getColored_def ex_flags)

lemma console_Cons: "console (e # es) = (if is_console e then e # console es else console es)"
  by (simp add: console_def)

lemma Level_order:
  "LevelDebug \<le> LevelFatal" "LevelError \<le> LevelFatal" "LevelDebug < LevelError"
  "LevelDebug \<le> LevelError" "\<not> LevelError \<le> LevelDebug" "LevelDebug \<noteq> LevelError"
  "LevelDebug \<noteq> LevelFatal" "LevelDebug \<le> 7" "LevelError \<le> 7" "7 \<noteq> LevelError"
  "7 \<noteq> LevelFatal" "LevelFatal < 7" "LevelDebug \<le> LevelWarning"
  "\<not> LevelError \<le> LevelWarning" "LevelWarning \<noteq> LevelError" "LevelWarning \<noteq> LevelFatal"
  by (simp_all add: Level_defs word_le_nat_alt word_less_nat_alt)

lemma ex_ready_Level: "ex_ready\<lparr>lg := (lg ex_ready)\<lparr>Level := LevelError\<rparr>\<rparr> = ex_ready"
  by (simp add: ex_ready_def ex_logger_def)

subsection \<open>Rotation\<close>

text \<open>
  C1. With \<^verbatim>\<open>AppendDate\<close> on and an idle sink whose handle \<open>n\<close> is not the path of the current
  date, \<^verbatim>\<open>writeToFile\<close> closes \<open>n\<close> first and writes nothing more to it, so the content of
  that file stays as it was; when the file of the current date opens, it is opened after
  the close, the line is appended to it and synced, and the sink is left idle on the new
  handle. For two appends between which the date changes: the first goes to the file of
  the first date, the second returns, goes to the file of the second date, and leaves the
  first file as the first append left it.
\<close>

theorem rotation:
  "(File (lg s) = Some f \<and> sink_idle f n \<and> AppendDate f \<and> n \<noteq> getFilePath rt f \<longrightarrow>
      (\<exists>rest. events (final (writeToFile rt message level s)) = events s @ FileClosed n # rest \<and>
              (\<forall>b. FileWrite n b \<notin> set rest)) \<and>
      fs (final (writeToFile rt message level s)) n = fs s n \<and>
      (OpenFile_err rt (getFilePath rt f) = None \<longrightarrow>
         (\<exists>s'. writeToFile rt message level s = Returned s' \<and>
               events s' = events s @
                 [FileClosed n, FileOpened (getFilePath rt f),
                  FileWrite (getFilePath rt f) (Println_bytes message),
                  FileSynced (getFilePath rt f)] @
                 (if level = LevelFatal then [FileClosed (getFilePath rt f)] else []) \<and>
               fs s' = (fs s)(getFilePath rt f \<mapsto>
                          content s (getFilePath rt f) @ Println_bytes message) \<and>
               (level \<noteq> LevelFatal \<longrightarrow>
                  (\<exists>f'. File (lg s') = Some f' \<and> sink_idle f' (getFilePath rt f)))))) \<and>
   (File (lg s) = Some f \<and> sink_idle f n \<and> AppendDate f \<and> n = getFilePath rta f \<and>
    levela \<noteq> LevelFatal \<and> getFileDate rtb \<noteq> getFileDate rta \<and>
    OpenFile_err rtb (getFilePath rtb f) = None \<longrightarrow>
      (\<exists>s1 s2. writeToFile rta ma levela s = Returned s1 \<and>
               writeToFile rtb mb levelb s1 = Returned s2 \<and>
               getFilePath rtb f \<noteq> n \<and>
               fs s1 n = Some (content s n @ Println_bytes ma) \<and>
               fs s2 n = fs s1 n \<and>
               fs s2 (getFilePath rtb f) =
                 Some (content s1 (getFilePath rtb f) @ Println_bytes mb) \<and>
               events s2 = events s1 @
                 [FileClosed n, FileOpened (getFilePath rtb f),
                  FileWrite (getFilePath rtb f) (Println_bytes mb),
                  FileSynced (getFilePath rtb f)] @
                 (if levelb = LevelFatal then [FileClosed (getFilePath rtb f)] else [])))"
proof (intro conjI impI)
  assume a: "File (lg s) = Some f \<and> sink_idle f n \<and> AppendDate f \<and> n \<noteq> getFilePath rt f"
  show "\<exists>rest. events (final (writeToFile rt message level s)) = events s @ FileClosed n # rest \<and>
              (\<forall>b. FileWrite n b \<notin> set rest)"
  proof (cases "OpenFile_err rt (getFilePath rt f)")
    case None
    with a writeToFile_rotate [of s f n rt message level] show ?thesis by auto
  next
    case (Some err)
    with a writeToFile_rotate_fail_any [of s f n rt err message level] show ?thesis by auto
  qed
  show "fs (final (writeToFile rt message level s)) n = fs s n"
  proof (cases "OpenFile_err rt (getFilePath rt f)")
    case None
    with a writeToFile_rotate [of s f n rt message level] show ?thesis by auto
  next
    case (Some err)
    with a writeToFile_rotate_fail_any [of s f n rt err message level] show ?thesis by auto
  qed
next
  assume a: "File (lg s) = Some f \<and> sink_idle f n \<and> AppendDate f \<and> n \<noteq> getFilePath rt f"
    and o: "OpenFile_err rt (getFilePath rt f) = None"
  with writeToFile_rotate [of s f n rt message level]
  show "\<exists>s'. writeToFile rt message level s = Returned s' \<and>
               events s' = events s @
                 [FileClosed n, FileOpened (getFilePath rt f),
                  FileWrite (getFilePath rt f) (Println_bytes message),
                  FileSynced (getFilePath rt f)] @
                 (if level = LevelFatal then [FileClosed (getFilePath rt f)] else []) \<and>
               fs s' = (fs s)(getFilePath rt f \<mapsto>
                          content s (getFilePath rt f) @ Println_bytes message) \<and>
               (level \<noteq> LevelFatal \<longrightarrow>
                  (\<exists>f'. File (lg s') = Some f' \<and> sink_idle f' (getFilePath rt f)))"
    by (auto simp: content_def intro: sink_idle_after)
next
  assume a: "File (lg s) = Some f \<and> sink_idle f n \<and> AppendDate f \<and> n = getFilePath rta f \<and>
    levela \<noteq> LevelFatal \<and> getFileDate rtb \<noteq> getFileDate rta \<and>
    OpenFile_err rtb (getFilePath rtb f) = None"
  let ?s1 = "\<lparr>lg = lg s,
              fs = (fs s)(n \<mapsto> (case fs s n of None \<Rightarrow> [] | Some c \<Rightarrow> c) @ Println_bytes ma),
              events = events s @ [FileWrite n (Println_bytes ma), FileSynced n]\<rparr>"
  from a have A: "File (lg s) = Some f" "sink_idle f n" "AppendDate f" "n = getFilePath rta f"
    "levela \<noteq> LevelFatal" "getFileDate rtb \<noteq> getFileDate rta"
    "OpenFile_err rtb (getFilePath rtb f) = None"
    by blast+
  from A have ne: "getFilePath rtb f \<noteq> n" by (simp add: getFilePath_date)
  have "AppendDate f \<longrightarrow> n = getFilePath rta f" using A by simp
  from writeToFile_current [OF A(1) A(2) this, of ma levela] A(5)
  have 1: "writeToFile rta ma levela s = Returned ?s1"
    by simp
  from A ne have 2: "writeToFile rtb mb levelb ?s1 =
      Returned \<lparr>lg = (lg ?s1)\<lparr>File := Some (if levelb = LevelFatal
                                                  then f\<lparr>logger := None, osFile := None\<rparr>
                                                  else f\<lparr>logger := Some (getFilePath rtb f),
                                                         osFile := Some (getFilePath rtb f)\<rparr>)\<rparr>,
                     fs = (fs ?s1)(getFilePath rtb f \<mapsto>
                            (case fs ?s1 (getFilePath rtb f) of None \<Rightarrow> [] | Some c \<Rightarrow> c) @
                            Println_bytes mb),
                     events = events ?s1 @ [FileClosed n, FileOpened (getFilePath rtb f),
                                FileWrite (getFilePath rtb f) (Println_bytes mb),
                                FileSynced (getFilePath rtb f)] @
                              (if levelb = LevelFatal then [FileClosed (getFilePath rtb f)] else [])\<rparr>"
    by (intro writeToFile_rotate) auto
  show "\<exists>s1 s2. writeToFile rta ma levela s = Returned s1 \<and>
               writeToFile rtb mb levelb s1 = Returned s2 \<and>
               getFilePath rtb f \<noteq> n \<and>
               fs s1 n = Some (content s n @ Println_bytes ma) \<and>
               fs s2 n = fs s1 n \<and>
               fs s2 (getFilePath rtb f) =
                 Some (content s1 (getFilePath rtb f) @ Println_bytes mb) \<and>
               events s2 = events s1 @
                 [FileClosed n, FileOpened (getFilePath rtb f),
                  FileWrite (getFilePath rtb f) (Println_bytes mb),
                  FileSynced (getFilePath rtb f)] @
                 (if levelb = LevelFatal then [FileClosed (getFilePath rtb f)] else [])"
    apply (rule exI [of _ ?s1])
    apply (simp only: 1 2)
    using ne apply (simp add: content_def)
    done
qed

theorem rotation_witness:
  "File (lg ex_ready) = Some ex_open_sink \<and> sink_idle ex_open_sink ''app.log.2024-01-02'' \<and>
   AppendDate ex_open_sink \<and> ''app.log.2024-01-02'' \<noteq> getFilePath ex_rt_next ex_open_sink \<and>
   OpenFile_err ex_rt_next (getFilePath ex_rt_next ex_open_sink) = None \<and>
   fs (final (writeToFile ex_rt_next ''b'' LevelInfo ex_ready)) ''app.log.2024-01-02'' =
     fs ex_ready ''app.log.2024-01-02'' \<and>
   (\<exists>s'. writeToFile ex_rt_next ''b'' LevelInfo ex_ready = Returned s' \<and>
         events s' = [FileOpened ''app.log.2024-01-02'', FileClosed ''app.log.2024-01-02'',
                      FileOpened ''app.log.2024-01-03'',
                      FileWrite ''app.log.2024-01-03'' (''b'' @ [CHR 0x0A]),
                      FileSynced ''app.log.2024-01-03''])"
  using rotation [where s = ex_ready and f = ex_open_sink and n = "''app.log.2024-01-02''"
      and rt = ex_rt_next and message = "''b''" and level = LevelInfo and rta = ex_rt
      and rtb = ex_rt_next and levela = LevelInfo and levelb = LevelInfo and ma = "''a''"
      and mb = "''b''"]
  by (auto simp: ex_paths ex_ready_facts ex_runtime_facts ex_file_dates Println_bytes_def
      Level_defs)


subsection \<open>The two gates\<close>

text \<open>
  C2. A logger that has been set up, whose sink is absent or in working order, and whose
  console level is \<open>Lb\<close>: \<^verbatim>\<open>Log\<close> at a level below \<open>Lb\<close> returns and adds nothing to the
  console; \<^verbatim>\<open>Log\<close> at a level \<open>Lc\<close> from \<open>Lb\<close> upwards adds exactly one console write, on
  standard error for Error and for Fatal (which then ends the process) and on standard
  output otherwise.
\<close>

theorem console_gate:
  assumes "File (lg s) = Some f" "sink_ok rt f" "consoleLogger (lg s)" "consoleLoggerErr (lg s)"
    "Level (lg s) = Lb"
  shows "(La < Lb \<longrightarrow>
            (\<exists>s'. Log rt La message parameters s = Returned s' \<and>
                  console (events s') = console (events s))) \<and>
         (Lb \<le> Lc \<longrightarrow>
            (\<exists>s'. (if Lc = LevelFatal then Log rt Lc message parameters s = Exited s'
                   else Log rt Lc message parameters s = Returned s') \<and>
                  console (events s') = console (events s) @
                    [if Lc = LevelError
                     then Stderr (Println_bytes (printMessageColored rt (lg s) Lc message parameters))
                     else if Lc = LevelFatal
                     then Stderr (Output_bytes (printMessageColored rt (lg s) Lc message parameters))
                     else Stdout (Println_bytes
                                    (printMessageColored rt (lg s) Lc message parameters))]))"
proof (intro conjI impI)
  assume "La < Lb"
  then have "\<not> Lb \<le> La" by (simp add: not_le)
  with assms show "\<exists>s'. Log rt La message parameters s = Returned s' \<and>
                  console (events s') = console (events s)"
    by (cases "logger f")
      (auto simp: Log_def log_ok [OF assms(1,2)] log_console_installed)
next
  assume "Lb \<le> Lc"
  with assms show "\<exists>s'. (if Lc = LevelFatal then Log rt Lc message parameters s = Exited s'
                   else Log rt Lc message parameters s = Returned s') \<and>
                  console (events s') = console (events s) @
                    [if Lc = LevelError
                     then Stderr (Println_bytes (printMessageColored rt (lg s) Lc message parameters))
                     else if Lc = LevelFatal
                     then Stderr (Output_bytes (printMessageColored rt (lg s) Lc message parameters))
                     else Stdout (Println_bytes
                                    (printMessageColored rt (lg s) Lc message parameters))]"
    by (cases "logger f")
      (auto simp: Log_def log_ok [OF assms(1,2)] log_console_installed)
qed

theorem console_gate_witness:
  "File (lg ex_ready) = Some ex_open_sink \<and> sink_ok ex_rt ex_open_sink \<and>
   consoleLogger (lg ex_ready) \<and> consoleLoggerErr (lg ex_ready) \<and>
   Level (lg ex_ready) = LevelError \<and> LevelDebug < LevelError \<and> LevelError \<le> LevelError \<and>
   (\<exists>s'. Log ex_rt LevelDebug ''x'' [] ex_ready = Returned s' \<and> console (events s') = []) \<and>
   (\<exists>s'. Log ex_rt LevelError ''x'' [] ex_ready = Returned s' \<and>
         console (events s') =
           [Stderr (''[ERROR] 2024-01-02 03:04:05 - [ERROR] 2024-01-02 03:04:05 - x'' @
                    [CHR 0x0A])])"
  using console_gate [OF ex_ready_facts(1) ex_sink_ok(1) ex_ready_facts(7,8,6),
      where La = LevelDebug and Lc = LevelError and message = "''x''" and parameters = "[]"]
  by (simp add: ex_ready_facts ex_sink_ok ex_printMessage ex_level_names Println_bytes_def
      console_Cons Level_order)

text \<open>
  C3. Whatever the console level \<open>c\<close> of the logger is, what \<^verbatim>\<open>Log\<close> leaves in the files is
  decided by the sink alone: with a file logger and \<^verbatim>\<open>File.Level <= level\<close> the line is
  appended to the sink's file, otherwise the files are as before. A message below the
  console level adds nothing to the console, also when it is written to the file (console
  level Error, file level Debug, a Debug message).
\<close>

theorem file_gate:
  assumes "File (lg s) = Some f" "sink_ok rt f"
  shows "fs (final (Log rt level message parameters (s\<lparr>lg := (lg s)\<lparr>Level := c\<rparr>\<rparr>))) =
           (case logger f of
              None \<Rightarrow> fs s
            | Some n \<Rightarrow>
               if File_Level f \<le> level
               then (fs s)(target rt f n \<mapsto> content s (target rt f n) @
                       Println_bytes (printMessage rt (lg s) level message parameters))
               else fs s) \<and>
         (level < c \<longrightarrow>
            console (events (final (Log rt level message parameters
                                      (s\<lparr>lg := (lg s)\<lparr>Level := c\<rparr>\<rparr>)))) = console (events s))"
proof -
  let ?s = "s\<lparr>lg := (lg s)\<lparr>Level := c\<rparr>\<rparr>"
  have F: "File (lg ?s) = Some f" using assms(1) by simp
  note L = log_ok [OF F assms(2), of level message parameters]
  show ?thesis
  proof (intro conjI impI)
    show "fs (final (Log rt level message parameters ?s)) =
           (case logger f of
              None \<Rightarrow> fs s
            | Some n \<Rightarrow>
               if File_Level f \<le> level
               then (fs s)(target rt f n \<mapsto> content s (target rt f n) @
                       Println_bytes (printMessage rt (lg s) level message parameters))
               else fs s)"
      unfolding Log_def L by (cases "logger f") simp_all
  next
    assume "level < c"
    then have n: "\<not> c \<le> level" by (simp add: not_le)
    show "console (events (final (Log rt level message parameters ?s))) = console (events s)"
      unfolding Log_def L using n
      by (cases "logger f") (simp_all add: log_console_closed)
  qed
qed

theorem file_gate_witness:
  "File (lg ex_ready) = Some ex_open_sink \<and> sink_ok ex_rt ex_open_sink \<and>
   Level (lg ex_ready) = LevelError \<and> File_Level ex_open_sink = LevelDebug \<and>
   LevelDebug < LevelError \<and>
   fs (final (Log ex_rt LevelDebug ''x'' [] ex_ready)) ''app.log.2024-01-02'' =
     Some (''[DEBUG] 2024-01-02 03:04:05 - x'' @ [CHR 0x0A]) \<and>
   console (events (final (Log ex_rt LevelDebug ''x'' [] ex_ready))) = []"
  using file_gate [OF ex_ready_facts(1) ex_sink_ok(1), where c = LevelError
      and level = LevelDebug and message = "''x''" and parameters = "[]"]
  by (simp add: ex_ready_Level ex_ready_facts ex_sink_ok ex_printMessage ex_level_names
      ex_target content_def Println_bytes_def console_Cons Level_order)

subsection \<open>Fatal\<close>

text \<open>
  C7. \<^verbatim>\<open>Log\<close> at level Fatal, in this order: when the sink has a file logger and its level
  admits Fatal, the line is written to the file and synced and the handle is closed (none
  is left in the sink); when the console level admits Fatal, the line is written to
  standard error and the process ends. With a console level above Fatal there is no
  console write and the call returns.
\<close>

theorem fatal_order:
  assumes "File (lg s) = Some f" "sink_ok rt f" "consoleLoggerErr (lg s)"
  shows "\<exists>s'. Log rt LevelFatal message parameters s =
                (if Level (lg s) \<le> LevelFatal then Exited s' else Returned s') \<and>
              events s' = events s @
                (case logger f of
                   None \<Rightarrow> []
                 | Some n \<Rightarrow>
                    if File_Level f \<le> LevelFatal
                    then (if AppendDate f \<and> n \<noteq> getFilePath rt f
                          then [FileClosed n, FileOpened (getFilePath rt f)] else []) @
                         [FileWrite (target rt f n)
                            (Println_bytes (printMessage rt (lg s) LevelFatal message parameters)),
                          FileSynced (target rt f n), FileClosed (target rt f n)]
                    else []) @
                (if Level (lg s) \<le> LevelFatal
                 then [Stderr (Output_bytes
                                 (printMessageColored rt (lg s) LevelFatal message parameters))]
                 else []) \<and>
              (case logger f of
                 None \<Rightarrow> True
               | Some n \<Rightarrow>
                  if File_Level f \<le> LevelFatal
                  then (\<exists>f'. File (lg s') = Some f' \<and> logger f' = None \<and> osFile f' = None) \<and>
                       fs s' (target rt f n) =
                         Some (content s (target rt f n) @
                               Println_bytes (printMessage rt (lg s) LevelFatal message parameters))
                  else True)"
  unfolding Log_def log_ok [OF assms(1,2)]
  using assms(3)
  by (cases "logger f")
    (auto simp: log_console_def consoleLoggerErr_Fatal_def after_append_def)

theorem fatal_order_witness:
  "File (lg ex_ready) = Some ex_open_sink \<and> sink_ok ex_rt ex_open_sink \<and>
   consoleLoggerErr (lg ex_ready) \<and>
   (\<exists>s'. Log ex_rt LevelFatal ''x'' [] ex_ready = Exited s' \<and>
         events s' =
           [FileOpened ''app.log.2024-01-02'',
            FileWrite ''app.log.2024-01-02'' (''[FATAL] 2024-01-02 03:04:05 - x'' @ [CHR 0x0A]),
            FileSynced ''app.log.2024-01-02'', FileClosed ''app.log.2024-01-02'',
            Stderr (''[FATAL] 2024-01-02 03:04:05 - [FATAL] 2024-01-02 03:04:05 - x'' @
                    [CHR 0x0A])])"
  using fatal_order [OF ex_ready_facts(1) ex_sink_ok(1) ex_ready_facts(8),
      where message = "''x''" and parameters = "[]"]
  by (auto simp: ex_ready_facts ex_sink_ok ex_printMessage ex_level_names ex_target ex_paths
      Println_bytes_def Output_bytes_def Level_order)


subsection \<open>A file that does not open\<close>

lemma openFile_fail:
  assumes "File (lg s) = Some f" "logger f = None" "osFile f = None"
    "fileSync f = None \<or> fileSync f = Some new_RWMutex"
    "OpenFile_err rt (getFilePath rt f) = Some err" "consoleLoggerErr (lg s)"
  shows "openFile rt s =
           Returned \<lparr>lg = (lg s)\<lparr>File := Some (if fileSync f = None
                                                  then f\<lparr>fileSync := Some new_RWMutex,
                                                         fileSyncWrite := Some new_RWMutex\<rparr>
                                                  else f)\<rparr>,
                     fs = fs s,
                     events = events s @
                       (if Level (lg s) \<le> LevelError
                        then [Stderr (Println_bytes (printMessageColored rt (lg s) LevelError
                                (open_error_text (getFilePath rt f) err) []))]
                        else [])\<rparr>"
proof -
  have r: "fileSync f = Some new_RWMutex \<Longrightarrow>
           f\<lparr>fileSync := Some \<lparr>writer = False, readers = 0\<rparr>\<rparr> = f"
    by (simp add: new_RWMutex_def)
  from assms(4) show ?thesis
  proof
    assume "fileSync f = None"
    with assms show ?thesis
      by (simp add: openFile.simps log.simps log_console_def consoleLoggerErr_Println_def
          step_defs)
  next
    assume m: "fileSync f = Some new_RWMutex"
    with assms r [OF m] show ?thesis
      by (simp add: openFile.simps log.simps log_console_def consoleLoggerErr_Println_def
          step_defs)
  qed
qed

text \<open>
  On a sink that holds no handle (at the first setup, and in a rotation once \<^verbatim>\<open>CloseFile\<close>
  has run) \<^verbatim>\<open>openFile\<close> with a file that does not open returns; all it adds is one
  Error-level message through the logger's own \<^verbatim>\<open>Log\<close>, on standard error when the console
  level admits Error; the files are untouched; the sink has no file logger. Every \<^verbatim>\<open>Log\<close>
  on the state it leaves writes no file, reports nothing further, changes nothing in the
  logger, and writes to the console the line that the console level and the configuration
  determine, as with a working sink.
\<close>

lemma open_failure_without_handle:
  assumes "File (lg s) = Some f" "logger f = None" "osFile f = None"
    "fileSync f = None \<or> fileSync f = Some new_RWMutex"
    "OpenFile_err rt (getFilePath rt f) = Some err"
    "consoleLogger (lg s)" "consoleLoggerErr (lg s)"
  shows "\<exists>s'. openFile rt s = Returned s' \<and>
           events s' = events s @
             (if Level (lg s) \<le> LevelError
              then [Stderr (Println_bytes (printMessageColored rt (lg s) LevelError
                      (open_error_text (getFilePath rt f) err) []))]
              else []) \<and>
           fs s' = fs s \<and>
           (\<exists>f'. File (lg s') = Some f' \<and> logger f' = None \<and> osFile f' = None) \<and>
           (\<forall>rtb level message parameters.
              \<exists>t. (if level = LevelFatal \<and> Level (lg s) \<le> level
                   then Log rtb level message parameters s' = Exited t
                   else Log rtb level message parameters s' = Returned t) \<and>
                  fs t = fs s' \<and> lg t = lg s' \<and>
                  events t = events s' @
                    (if Level (lg s) \<le> level
                     then [if level = LevelError
                           then Stderr (Println_bytes
                                  (printMessageColored rtb (lg s) level message parameters))
                           else if level = LevelFatal
                           then Stderr (Output_bytes
                                  (printMessageColored rtb (lg s) level message parameters))
                           else Stdout (Println_bytes
                                  (printMessageColored rtb (lg s) level message parameters))]
                     else []))"
proof -
  let ?f = "if fileSync f = None
            then f\<lparr>fileSync := Some new_RWMutex, fileSyncWrite := Some new_RWMutex\<rparr> else f"
  let ?s = "\<lparr>lg = (lg s)\<lparr>File := Some ?f\<rparr>, fs = fs s,
             events = events s @
               (if Level (lg s) \<le> LevelError
                then [Stderr (Println_bytes (printMessageColored rt (lg s) LevelError
                        (open_error_text (getFilePath rt f) err) []))]
                else [])\<rparr>"
  have o: "openFile rt s = Returned ?s"
    using openFile_fail [OF assms(1,2,3,4,5,7)] .
  have F: "File (lg ?s) = Some ?f" by simp
  have n: "\<not> (File_Level ?f \<le> level \<and> logger ?f \<noteq> None)" for level
    using assms(2) by simp
  have c: "consoleLogger (lg ?s)" "consoleLoggerErr (lg ?s)" "Level (lg ?s) = Level (lg s)"
    using assms(6,7) by simp_all
  have L: "Log rtb level message parameters ?s =
        log_console level (printMessageColored rtb (lg s) level message parameters) ?s"
    for rtb level message parameters
    unfolding Log_def log_skip [OF F n] by simp
  show ?thesis
    apply (rule exI [of _ ?s])
    apply (intro conjI allI)
        apply (rule o)
       apply simp
      apply simp
    using assms(2,3) apply simp
    apply (simp only: L log_console_installed [OF c(1,2)] c(3))
    apply auto
    done
qed

lemma open_failure_without_handle_example:
  "File (lg ex_console) = Some ex_sink \<and> logger ex_sink = None \<and> osFile ex_sink = None \<and>
   (fileSync ex_sink = None \<or> fileSync ex_sink = Some new_RWMutex) \<and>
   OpenFile_err ex_rt_denied (getFilePath ex_rt_denied ex_sink) = Some ''permission denied'' \<and>
   consoleLogger (lg ex_console) \<and> consoleLoggerErr (lg ex_console) \<and>
   (\<exists>s'. openFile ex_rt_denied ex_console = Returned s' \<and>
         events s' =
           [Stderr (Println_bytes (printMessageColored ex_rt_denied (lg ex_console) LevelError
              (open_error_text ''app.log.2024-01-03'' ''permission denied'') []))] \<and>
         fs s' = (\<lambda>p. None) \<and>
         (\<exists>t. Log ex_rt LevelDebug ''x'' [] s' = Returned t \<and> events t = events s' \<and>
              fs t = fs s'))"
proof -
  have c: "File (lg ex_console) = Some ex_sink" "logger ex_sink = None" "osFile ex_sink = None"
    "fileSync ex_sink = None \<or> fileSync ex_sink = Some new_RWMutex"
    "OpenFile_err ex_rt_denied (getFilePath ex_rt_denied ex_sink) = Some ''permission denied''"
    "consoleLogger (lg ex_console)" "consoleLoggerErr (lg ex_console)"
    "Level (lg ex_console) = LevelError" "fs ex_console = (\<lambda>p. None)" "events ex_console = []"
    by (simp_all add: ex_console_def ex_state_def ex_logger_def ex_sink_def ex_runtime_facts)
  from open_failure_without_handle [OF c(1-7)]
  obtain s' where s': "openFile ex_rt_denied ex_console = Returned s'"
    "events s' = events ex_console @
             (if Level (lg ex_console) \<le> LevelError
              then [Stderr (Println_bytes (printMessageColored ex_rt_denied (lg ex_console)
                      LevelError
                      (open_error_text (getFilePath ex_rt_denied ex_sink) ''permission denied'')
                      []))]
              else [])"
    "fs s' = fs ex_console"
    "\<forall>rtb level message parameters.
              \<exists>t. (if level = LevelFatal \<and> Level (lg ex_console) \<le> level
                   then Log rtb level message parameters s' = Exited t
                   else Log rtb level message parameters s' = Returned t) \<and>
                  fs t = fs s' \<and> lg t = lg s' \<and>
                  events t = events s' @
                    (if Level (lg ex_console) \<le> level
                     then [if level = LevelError
                           then Stderr (Println_bytes
                                  (printMessageColored rtb (lg ex_console) level message
                                     parameters))
                           else if level = LevelFatal
                           then Stderr (Output_bytes
                                  (printMessageColored rtb (lg ex_console) level message
                                     parameters))
                           else Stdout (Println_bytes
                                  (printMessageColored rtb (lg ex_console) level message
                                     parameters))]
                     else [])"
    by blast
  from s'(4) obtain t where
    "(if LevelDebug = LevelFatal \<and> Level (lg ex_console) \<le> LevelDebug
      then Log ex_rt LevelDebug ''x'' [] s' = Exited t
      else Log ex_rt LevelDebug ''x'' [] s' = Returned t) \<and>
     fs t = fs s' \<and> lg t = lg s' \<and>
     events t = events s' @
       (if Level (lg ex_console) \<le> LevelDebug
        then [if LevelDebug = LevelError
              then Stderr (Println_bytes (printMessageColored ex_rt (lg ex_console) LevelDebug
                     ''x'' []))
              else if LevelDebug = LevelFatal
              then Stderr (Output_bytes (printMessageColored ex_rt (lg ex_console) LevelDebug
                     ''x'' []))
              else Stdout (Println_bytes (printMessageColored ex_rt (lg ex_console) LevelDebug
                     ''x'' []))]
        else [])"
    by blast
  then have t: "Log ex_rt LevelDebug ''x'' [] s' = Returned t" "fs t = fs s'"
    "events t = events s'"
    by (simp_all add: c(8) Level_order)
  from s'(1-3) t c show ?thesis
    by (simp add: ex_paths Level_order)
qed

text \<open>
  \<^verbatim>\<open>setup\<close> calls \<^verbatim>\<open>openFile\<close> without closing a handle the sink already holds, unlike the
  rotation in \<^verbatim>\<open>writeToFile\<close>, which calls \<^verbatim>\<open>CloseFile\<close> first. \<^verbatim>\<open>openFile\<close> then reports a
  failure while it holds the write lock of \<^verbatim>\<open>fileSync\<close> and while the file logger of the old
  handle is still installed: when the file level admits Error, \<^verbatim>\<open>Log\<close> enters
  \<^verbatim>\<open>writeToFile\<close>, whose first statement asks for the read lock of the same mutex.
\<close>

lemma writeToFile_blocked:
  assumes "File (lg s) = Some f" "fileSync f = Some m" "writer m"
  shows "writeToFile rt message level s = Blocked s"
  using assms by (simp add: writeToFile.simps on_fileSync_def RLock_def)

lemma openFile_fail_held:
  assumes "File (lg s) = Some f" "sink_idle f n" "File_Level f \<le> LevelError"
    "OpenFile_err rt (getFilePath rt f) = Some err"
  shows "openFile rt s =
           Blocked (s\<lparr>lg := (lg s)\<lparr>File := Some (f\<lparr>fileSync :=
                                       Some \<lparr>writer = True, readers = 0\<rparr>\<rparr>)\<rparr>\<rparr>)"
proof -
  let ?f = "f\<lparr>fileSync := Some \<lparr>writer = True, readers = 0\<rparr>\<rparr>"
  let ?s = "s\<lparr>lg := (lg s)\<lparr>File := Some ?f\<rparr>\<rparr>"
  have F: "File (lg ?s) = Some ?f" by simp
  have g: "File_Level ?f \<le> LevelError" "logger ?f \<noteq> None"
    using assms(2,3) by (simp_all add: sink_idle_def)
  have w: "writeToFile rt message LevelError ?s = Blocked ?s" for message
    by (rule writeToFile_blocked [OF F, where m = "\<lparr>writer = True, readers = 0\<rparr>"]) simp_all
  have l: "log rt LevelError message [] ?s = Blocked ?s" for message
    unfolding log_write [OF F g] w by simp
  from assms(1,2,4) show ?thesis
    by (simp add: openFile.simps sink_idle_def on_fileSync_def Lock_def new_RWMutex_def
        upd_File_eq Let_def l)
qed

text \<open>
  When the file level does not admit Error the report is printed and \<^verbatim>\<open>openFile\<close> returns,
  with the old handle and its file logger still installed.
\<close>

lemma openFile_fail_held_above:
  assumes "File (lg s) = Some f" "sink_idle f n" "\<not> File_Level f \<le> LevelError"
    "OpenFile_err rt (getFilePath rt f) = Some err" "consoleLoggerErr (lg s)"
  shows "openFile rt s =
           Returned (s\<lparr>events := events s @
                       (if Level (lg s) \<le> LevelError
                        then [Stderr (Println_bytes (printMessageColored rt (lg s) LevelError
                                (open_error_text (getFilePath rt f) err) []))]
                        else [])\<rparr>)"
  using assms sink_idle_restore [OF assms(2)]
  by (simp add: openFile.simps log.simps log_console_def consoleLoggerErr_Println_def
      sink_idle_def step_defs)

lemma NewLogger_example: "NewLogger ex_rt ex_state = Returned ex_ready"
proof -
  have f: "File ex_logger = Some ex_sink" "Path ex_sink = ''app.log''"
    "fileSync ex_sink = None" "ColoredOutput ex_logger = False"
    by (simp_all add: ex_logger_def ex_sink_def)
  have t: "TrimSpace_nonempty ''app.log''"
    by (simp add: TrimSpace_nonempty_def is_space_def)
  show ?thesis
    by (simp add: NewLogger_def Logger_setup_def ex_state_def f t openFile.simps step_defs
        opened_def ex_paths ex_runtime_facts newColorConfig_def upd_File_def)
      (simp add: ex_ready_def ex_open_sink_def ex_logger_def new_RWMutex_def)
qed

text \<open>
  C5, the code at a failing input. A logger with a date-suffixed file is set up on
  2 January and holds the handle of that day's file. On 3 January the file of the new date
  cannot be opened, and the logger is set up again (\<^verbatim>\<open>NewLogger\<close> or \<^verbatim>\<open>SetGlobalLogger\<close> on
  the same logger). \<^verbatim>\<open>openFile\<close> takes the write lock, fails to open the file and calls
  \<^verbatim>\<open>Log\<close> at Error level; the file logger of the old handle is still there, so \<^verbatim>\<open>Log\<close> goes
  to \<^verbatim>\<open>writeToFile\<close>, which waits for the read lock of the mutex that \<^verbatim>\<open>openFile\<close> holds. The
  call does not return: no Error-level message reaches the console or a file, and the sink
  still holds the old handle and its file logger.
\<close>

theorem open_failure_blocks:
  "NewLogger ex_rt ex_state = Returned ex_ready \<and>
   NewLogger ex_rt_denied ex_ready =
     Blocked \<lparr>lg = (lg ex_ready)\<lparr>File := Some (ex_open_sink\<lparr>
                    fileSync := Some \<lparr>writer = True, readers = 0\<rparr>\<rparr>)\<rparr>,
              fs = fs ex_ready,
              events = [FileOpened ''app.log.2024-01-02'']\<rparr>"
proof
  show "NewLogger ex_rt ex_state = Returned ex_ready" by (rule NewLogger_example)
next
  have c: "ex_ready\<lparr>lg := (lg ex_ready)\<lparr>consoleLogger := True, consoleLoggerErr := True\<rparr>\<rparr> =
           ex_ready"
    by (simp add: ex_ready_def)
  have p: "TrimSpace_nonempty (Path ex_open_sink)"
    by (simp add: ex_open_sink_def ex_sink_def TrimSpace_nonempty_def is_space_def)
  have g: "File_Level ex_open_sink \<le> LevelError"
    by (simp add: ex_ready_facts Level_order)
  have o: "OpenFile_err ex_rt_denied (getFilePath ex_rt_denied ex_open_sink) =
             Some ''permission denied''"
    by (simp add: ex_runtime_facts)
  show "NewLogger ex_rt_denied ex_ready =
     Blocked \<lparr>lg = (lg ex_ready)\<lparr>File := Some (ex_open_sink\<lparr>
                    fileSync := Some \<lparr>writer = True, readers = 0\<rparr>\<rparr>)\<rparr>,
              fs = fs ex_ready,
              events = [FileOpened ''app.log.2024-01-02'']\<rparr>"
    by (simp add: NewLogger_def Logger_setup_def ex_ready_facts(1) c p
        openFile_fail_held [OF ex_ready_facts(1,2) g o])
      (simp add: ex_ready_def)
qed


subsection \<open>A reopen that fails\<close>

text \<open>
  C6, the code at a failing input. A logger with a date-suffixed file is set up on
  2 January. On 3 January the file of the new date cannot be opened. \<^verbatim>\<open>Log\<close> of an Info
  message then closes the old handle, reports the failure on standard error, comes back
  from \<^verbatim>\<open>openFile\<close> with a nil file logger and panics on \<^verbatim>\<open>l.logger.Println\<close>: the call
  does not return to its caller, and both read locks stay held.
\<close>

theorem reopen_failure_panics:
  "NewLogger ex_rt ex_state = Returned ex_ready \<and>
   Log ex_rt_denied LevelInfo ''x'' [] ex_ready =
     Panicked \<lparr>lg = (lg ex_ready)\<lparr>File := Some (ex_open_sink\<lparr>
                     fileSync := Some \<lparr>writer = False, readers = 1\<rparr>,
                     fileSyncWrite := Some \<lparr>writer = False, readers = 1\<rparr>,
                     osFile := None, logger := None\<rparr>)\<rparr>,
               fs = fs ex_ready,
               events = [FileOpened ''app.log.2024-01-02'', FileClosed ''app.log.2024-01-02'',
                         Stderr (Println_bytes (printMessageColored ex_rt_denied (lg ex_ready)
                           LevelError
                           (open_error_text ''app.log.2024-01-03'' ''permission denied'') []))]\<rparr>"
proof
  show "NewLogger ex_rt ex_state = Returned ex_ready" by (rule NewLogger_example)
next
  have g: "File_Level ex_open_sink \<le> LevelInfo" "logger ex_open_sink \<noteq> None"
    by (simp_all add: ex_ready_facts Level_defs)
  have n: "''app.log.2024-01-02'' \<noteq> getFilePath ex_rt_denied ex_open_sink"
    by (simp add: ex_paths)
  have o: "OpenFile_err ex_rt_denied (getFilePath ex_rt_denied ex_open_sink) =
             Some ''permission denied''"
    by (simp add: ex_runtime_facts)
  show "Log ex_rt_denied LevelInfo ''x'' [] ex_ready =
     Panicked \<lparr>lg = (lg ex_ready)\<lparr>File := Some (ex_open_sink\<lparr>
                     fileSync := Some \<lparr>writer = False, readers = 1\<rparr>,
                     fileSyncWrite := Some \<lparr>writer = False, readers = 1\<rparr>,
                     osFile := None, logger := None\<rparr>)\<rparr>,
               fs = fs ex_ready,
               events = [FileOpened ''app.log.2024-01-02'', FileClosed ''app.log.2024-01-02'',
                         Stderr (Println_bytes (printMessageColored ex_rt_denied (lg ex_ready)
                           LevelError
                           (open_error_text ''app.log.2024-01-03'' ''permission denied'') []))]\<rparr>"
    unfolding Log_def log_write [OF ex_ready_facts(1) g]
      writeToFile_rotate_fail [OF ex_ready_facts(1,2,3) n o ex_ready_facts(8)]
    by (simp add: ex_ready_facts ex_paths)
qed


subsection \<open>The rendered line\<close>

lemma log_console_events: "set (events s) \<subseteq> set (events (final (log_console level c s)))"
  by (auto simp: log_console_def consoleLogger_Println_def consoleLoggerErr_Println_def
      consoleLoggerErr_Fatal_def)

lemma length_Level_String: "length (Level_String level) \<le> 5"
  by (simp add: Level_String_def)

lemma length_Format_datetime:
  assumes "Year t < 10000" "Month t \<le> 12" "Day t \<le> 31" "Hour t < 24" "Minute t < 60"
    "Second t < 60"
  shows "length (Format_datetime t) = 19"
proof -
  have "length (pad_zero 4 (Year t)) = 4" using assms by (intro length_pad_zero) auto
  moreover have "length (pad_zero 2 (Month t)) = 2" using assms by (intro length_pad_zero) auto
  moreover have "length (pad_zero 2 (Day t)) = 2" using assms by (intro length_pad_zero) auto
  moreover have "length (pad_zero 2 (Hour t)) = 2" using assms by (intro length_pad_zero) auto
  moreover have "length (pad_zero 2 (Minute t)) = 2" using assms by (intro length_pad_zero) auto
  moreover have "length (pad_zero 2 (Second t)) = 2" using assms by (intro length_pad_zero) auto
  ultimately show ?thesis by (simp add: Format_datetime_def Format_date_def)
qed

lemma printMessage_form:
  "printMessage rt l level message parameters =
     (let (fname, ln) = (case Caller rt (3 + FuncCallIncrement l) of
                           Some fl \<Rightarrow> fl | None \<Rightarrow> (''#unknown'', 0));
          name = Level_String level @ replicate (5 - length (Level_String level)) CHR '' '';
          body = (if parameters = [] then message else Sprintf rt message parameters);
          src = (if PrintSource l
                 then '' ('' @ drop (nat (LastIndex fname CHR ''/'' + 1)) fname @ '':'' @
                      Itoa ln @ '')''
                 else [])
      in if OnlyPrintMessage l then body
         else ''['' @ name @ ''] '' @ Format_datetime (Now rt) @ src @ Prefix l @ '' - '' @ body)"
  by (simp add: printMessage_def getSourceMessage_def pad_right_def Let_def split: prod.splits)

text \<open>
  C9, as amended. The line \<^verbatim>\<open>Log\<close> appends to the file of a working sink is, when
  \<^verbatim>\<open>OnlyPrintMessage\<close> is off: an opening bracket, the name of the level followed by blanks
  up to five characters, a closing bracket and a blank, the date and time (19 characters,
  \<open>YYYY-MM-DD HH:MM:SS\<close>), then \<open> (file:line)\<close> when \<^verbatim>\<open>PrintSource\<close> is on, then the prefix
  with nothing in between, then \<open> - \<close> and the message (passed through \<^verbatim>\<open>Sprintf\<close> when there
  are parameters). With \<^verbatim>\<open>OnlyPrintMessage\<close> on, the line is the message alone.
\<close>

theorem line_format:
  assumes "File (lg s) = Some f" "sink_ok rt f" "logger f = Some n" "File_Level f \<le> level"
  shows "(let (fname, ln) = (case Caller rt (3 + FuncCallIncrement (lg s)) of
                               Some fl \<Rightarrow> fl | None \<Rightarrow> (''#unknown'', 0));
              name = Level_String level @ replicate (5 - length (Level_String level)) CHR '' '';
              body = (if parameters = [] then message else Sprintf rt message parameters);
              src = (if PrintSource (lg s)
                     then '' ('' @ drop (nat (LastIndex fname CHR ''/'' + 1)) fname @ '':'' @
                          Itoa ln @ '')''
                     else []);
              line = (if OnlyPrintMessage (lg s) then body
                      else ''['' @ name @ ''] '' @ Format_datetime (Now rt) @ src @
                           Prefix (lg s) @ '' - '' @ body)
          in FileWrite (target rt f n) (line @ [CHR 0x0A])
               \<in> set (events (final (Log rt level message parameters s))) \<and>
             fs (final (Log rt level message parameters s)) (target rt f n) =
               Some (content s (target rt f n) @ line @ [CHR 0x0A]) \<and>
             length name = 5) \<and>
         (Year (Now rt) < 10000 \<and> Month (Now rt) \<le> 12 \<and> Day (Now rt) \<le> 31 \<and>
          Hour (Now rt) < 24 \<and> Minute (Now rt) < 60 \<and> Second (Now rt) < 60 \<longrightarrow>
            length (Format_datetime (Now rt)) = 19)"
proof -
  let ?pm = "printMessage rt (lg s) level message parameters"
  let ?a = "after_append rt f n ?pm level s"
  have L: "Log rt level message parameters s =
             log_console level (printMessageColored rt (lg s) level message parameters) ?a"
    unfolding Log_def log_ok [OF assms(1,2)] using assms(3,4) by simp
  have "FileWrite (target rt f n) (Println_bytes ?pm) \<in> set (events ?a)"
    by (simp add: after_append_def)
  with log_console_events
  have 1: "FileWrite (target rt f n) (?pm @ [CHR 0x0A])
             \<in> set (events (final (Log rt level message parameters s)))"
    unfolding L Println_bytes_def by blast
  have 2: "fs (final (Log rt level message parameters s)) (target rt f n) =
             Some (content s (target rt f n) @ ?pm @ [CHR 0x0A])"
    unfolding L by (simp add: Println_bytes_def)
  have 3: "length (Level_String level @ replicate (5 - length (Level_String level)) CHR '' '') = 5"
    using length_Level_String [of level] by simp
  from 1 2 3 length_Format_datetime [of "Now rt"] show ?thesis
    unfolding printMessage_form [of rt "lg s" level message parameters]
    by (auto simp: Let_def split: prod.splits)
qed

theorem line_format_witness:
  "File (lg ex_ready) = Some ex_open_sink \<and> sink_ok ex_rt ex_open_sink \<and>
   logger ex_open_sink = Some ''app.log.2024-01-02'' \<and> File_Level ex_open_sink \<le> LevelError \<and>
   FileWrite ''app.log.2024-01-02'' (''[ERROR] 2024-01-02 03:04:05 - x'' @ [CHR 0x0A])
     \<in> set (events (final (Log ex_rt LevelError ''x'' [] ex_ready))) \<and>
   fs (final (Log ex_rt LevelError ''x'' [] ex_ready)) ''app.log.2024-01-02'' =
     Some (''[ERROR] 2024-01-02 03:04:05 - x'' @ [CHR 0x0A])"
proof -
  have g: "File_Level ex_open_sink \<le> LevelError"
    by (simp add: ex_ready_facts Level_order)
  have n: "Level_String LevelError = ''ERROR''"
    by (simp add: Level_String_def Level_defs)
  from line_format [OF ex_ready_facts(1) ex_sink_ok(1) ex_ready_facts(4) g,
      where message = "''x''" and parameters = "[]"]
  show ?thesis
    by (simp add: Let_def ex_flags ex_datetime ex_target ex_ready_facts ex_sink_ok n
        content_def Level_order)
qed

text \<open>
  C9 as stated does not hold: with \<^verbatim>\<open>OnlyPrintMessage\<close> on, the line in the file and the line
  on the console are the message and nothing else.
\<close>

lemma ex_plain_facts:
  "File (lg ex_plain) = Some ex_open_sink"
  "consoleLogger (lg ex_plain)"
  "consoleLoggerErr (lg ex_plain)"
  "Level (lg ex_plain) = LevelError"
  "events ex_plain = [FileOpened ''app.log.2024-01-02'']"
  "printMessage ex_rt (lg ex_plain) level ''x'' [] = ''x''"
  "printMessageColored ex_rt (lg ex_plain) level ''x'' [] = ''x''"
  by (simp_all add: ex_plain_def ex_ready_facts printMessage_def printMessageColored_def
      getColored_def ex_flags)

theorem header_absent:
  "events (final (Log ex_rt LevelError ''x'' [] ex_plain)) =
     [FileOpened ''app.log.2024-01-02'',
      FileWrite ''app.log.2024-01-02'' (''x'' @ [CHR 0x0A]),
      FileSynced ''app.log.2024-01-02'',
      Stderr (''x'' @ [CHR 0x0A])]"
  unfolding Log_def log_ok [OF ex_plain_facts(1) ex_sink_ok(1)]
  by (simp add: ex_ready_facts ex_plain_facts Level_order log_console_installed after_append_def
      ex_target ex_paths Println_bytes_def)

subsection \<open>A level outside the enumeration\<close>

lemma beyond_Fatal:
  assumes "LevelFatal < level"
  shows "level \<noteq> LevelTrace" "level \<noteq> LevelDebug" "level \<noteq> LevelInfo" "level \<noteq> LevelWarning"
    "level \<noteq> LevelError" "level \<noteq> LevelFatal"
  using assms by (auto simp: Level_defs word_less_nat_alt)

lemma Level_String_beyond: "LevelFatal < level \<Longrightarrow> Level_String level = ''DEBUG''"
  by (simp add: Level_String_def beyond_Fatal)

lemma printMessage_beyond:
  "LevelFatal < level \<Longrightarrow>
   printMessage rt l level message parameters = printMessage rt l LevelDebug message parameters"
proof -
  assume "LevelFatal < level"
  then have "Level_String level = Level_String LevelDebug"
    by (simp add: Level_String_beyond) (simp add: Level_String_def Level_defs)
  then show ?thesis by (simp add: printMessage_def)
qed

lemma log0_beyond:
  assumes "LevelFatal < level"
  shows "log0 rt level message parameters z =
         log0 rt LevelWarning
           (''Invalid level value given: '' @ digits (unat level) @ ''. Original message: '' @
            message) parameters z"
  using beyond_Fatal [OF assms]
  by (simp add: log0_def Let_def Level_defs split: prod.splits)

text \<open>
  C8, as amended. For a level above Fatal: the earlier \<^verbatim>\<open>log\<close> (src/logger.go, inline
  switch) does exactly what it does for a Warning whose text is the message behind the note
  \<open>Invalid level value given: <number>. Original message: \<close>. The present \<^verbatim>\<open>log\<close>, which
  names the level through \<^verbatim>\<open>Level.String\<close>, keeps the level: the name is DEBUG, the text is
  the one of a Debug message without any note, both gates compare the number given, and
  the console write goes to standard output; the call returns.
\<close>

theorem invalid_level:
  "(LevelFatal < level \<longrightarrow>
      Log0 rt level message parameters z =
      Log0 rt LevelWarning
        (''Invalid level value given: '' @ digits (unat level) @ ''. Original message: '' @
         message) parameters z) \<and>
   (LevelFatal < level \<and> File (lg s) = Some f \<and> sink_ok rt f \<and> consoleLogger (lg s) \<longrightarrow>
      Level_String level = ''DEBUG'' \<and>
      printMessage rt (lg s) level message parameters =
        printMessage rt (lg s) LevelDebug message parameters \<and>
      (\<exists>s'. Log rt level message parameters s = Returned s' \<and>
            events s' = events s @
              (case logger f of
                 None \<Rightarrow> []
               | Some n \<Rightarrow>
                  if File_Level f \<le> level
                  then (if AppendDate f \<and> n \<noteq> getFilePath rt f
                        then [FileClosed n, FileOpened (getFilePath rt f)] else []) @
                       [FileWrite (target rt f n)
                          (Println_bytes (printMessage rt (lg s) LevelDebug message parameters)),
                        FileSynced (target rt f n)]
                  else []) @
              (if Level (lg s) \<le> level
               then [Stdout (Println_bytes
                               (printMessageColored rt (lg s) level message parameters))]
               else [])))"
proof (intro conjI impI)
  assume "LevelFatal < level"
  then show "Log0 rt level message parameters z =
      Log0 rt LevelWarning
        (''Invalid level value given: '' @ digits (unat level) @ ''. Original message: '' @
         message) parameters z"
    unfolding Log0_def by (rule log0_beyond)
next
  assume a: "LevelFatal < level \<and> File (lg s) = Some f \<and> sink_ok rt f \<and> consoleLogger (lg s)"
  then have A: "LevelFatal < level" "File (lg s) = Some f" "sink_ok rt f" "consoleLogger (lg s)"
    by blast+
  show "Level_String level = ''DEBUG''" using A(1) by (rule Level_String_beyond)
  show p: "printMessage rt (lg s) level message parameters =
        printMessage rt (lg s) LevelDebug message parameters"
    using A(1) by (rule printMessage_beyond)
  show "\<exists>s'. Log rt level message parameters s = Returned s' \<and>
            events s' = events s @
              (case logger f of
                 None \<Rightarrow> []
               | Some n \<Rightarrow>
                  if File_Level f \<le> level
                  then (if AppendDate f \<and> n \<noteq> getFilePath rt f
                        then [FileClosed n, FileOpened (getFilePath rt f)] else []) @
                       [FileWrite (target rt f n)
                          (Println_bytes (printMessage rt (lg s) LevelDebug message parameters)),
                        FileSynced (target rt f n)]
                  else []) @
              (if Level (lg s) \<le> level
               then [Stdout (Println_bytes
                               (printMessageColored rt (lg s) level message parameters))]
               else [])"
    unfolding Log_def log_ok [OF A(2,3)] p
    using A(4) beyond_Fatal [OF A(1)]
    by (cases "logger f")
      (auto simp: log_console_def consoleLogger_Println_def after_append_def)
qed

lemma ex_earlier_warning:
  "events (final (Log0 ex_rt LevelWarning m [] ex_earlier)) =
     [FileWrite ''app.log'' (''[WARN ] 2024-01-02 03:04:05 - '' @ m @ [CHR 0x0A]),
      FileSynced ''app.log'']"
proof -
  have r: "Caller ex_rt k = None" "Sprintf ex_rt m [] = m" for k
    by (simp_all add: ex_rt_def)
  show ?thesis
    by (simp add: Log0_def log0_def Let_def r ex_datetime Level_order Level_defs
        getSourceMessage0_def fileLogger_Println_def logFile_Sync_def log0_console_def
        ex_earlier_def Println_bytes_def word_le_nat_alt)
qed

theorem invalid_level_witness:
  "LevelFatal < 7 \<and> File (lg ex_ready) = Some ex_open_sink \<and> sink_ok ex_rt ex_open_sink \<and>
   consoleLogger (lg ex_ready) \<and>
   Log0 ex_rt 7 ''x'' [] ex_earlier =
     Log0 ex_rt LevelWarning ''Invalid level value given: 7. Original message: x'' []
       ex_earlier \<and>
   events (final (Log0 ex_rt 7 ''x'' [] ex_earlier)) =
     [FileWrite ''app.log''
        (''[WARN ] 2024-01-02 03:04:05 - Invalid level value given: 7. Original message: x'' @
         [CHR 0x0A]),
      FileSynced ''app.log''] \<and>
   Level_String 7 = ''DEBUG''"
proof -
  have d: "digits 7 = ''7''"
    by (simp add: digits.simps digit_char_def)
  from invalid_level [where level = 7 and rt = ex_rt and message = "''x''" and parameters = "[]"
      and z = ex_earlier and s = ex_ready and f = ex_open_sink]
  have "Log0 ex_rt 7 ''x'' [] ex_earlier =
     Log0 ex_rt LevelWarning ''Invalid level value given: 7. Original message: x'' []
       ex_earlier" and "Level_String 7 = ''DEBUG''"
    by (simp_all add: d Level_order ex_ready_facts ex_sink_ok)
  then show ?thesis
    by (simp add: ex_earlier_warning Level_order ex_ready_facts ex_sink_ok)
qed


text \<open>
  C8 as stated does not hold on the present \<^verbatim>\<open>log\<close>: a message at level 7 on a logger with
  console level Error and file level Debug is written as a DEBUG line without a note and is
  printed on standard output, where a Warning is written as a WARN line and not printed.
\<close>

theorem invalid_level_kept:
  "events (final (Log ex_rt 7 ''x'' [] ex_ready)) =
     [FileOpened ''app.log.2024-01-02'',
      FileWrite ''app.log.2024-01-02'' (''[DEBUG] 2024-01-02 03:04:05 - x'' @ [CHR 0x0A]),
      FileSynced ''app.log.2024-01-02'',
      Stdout (''[DEBUG] 2024-01-02 03:04:05 - [DEBUG] 2024-01-02 03:04:05 - x'' @ [CHR 0x0A])] \<and>
   events (final (Log ex_rt LevelWarning ''x'' [] ex_ready)) =
     [FileOpened ''app.log.2024-01-02'',
      FileWrite ''app.log.2024-01-02'' (''[WARN ] 2024-01-02 03:04:05 - x'' @ [CHR 0x0A]),
      FileSynced ''app.log.2024-01-02'']"
  unfolding Log_def log_ok [OF ex_ready_facts(1) ex_sink_ok(1)]
  by (simp add: ex_ready_facts ex_printMessage ex_level_names Level_order log_console_installed
      after_append_def ex_target ex_paths Println_bytes_def)


subsection \<open>The levels are configuration: no call changes them\<close>

lemma same_levels_refl [simp]: "same_levels s s"
  by (simp add: same_levels_def)

lemma same_levels_trans: "same_levels a b \<Longrightarrow> same_levels b c \<Longrightarrow> same_levels a c"
  by (simp add: same_levels_def)

lemma same_levels_bnd:
  "same_levels s (final m) \<Longrightarrow> (\<And>s1. m = Returned s1 \<Longrightarrow> same_levels s1 (final (k s1))) \<Longrightarrow>
   same_levels s (final (bnd m k))"
  by (cases m) (auto intro: same_levels_trans)

lemma same_levels_upd [simp]:
  "same_levels s (s\<lparr>events := e\<rparr>)"
  "same_levels s (upd_File (\<lambda>f. f\<lparr>osFile := a, logger := b\<rparr>) s)"
  "same_levels s (upd_File (\<lambda>f. f\<lparr>fileSync := c, fileSyncWrite := d\<rparr>) s)"
  by (simp_all add: same_levels_def upd_File_def option.map_comp comp_def)

lemma same_levels_prims [simp]:
  "same_levels s (final (on_fileSync opr s))"
  "same_levels s (final (on_fileSyncWrite opr s))"
  "same_levels s (final (logger_Println message s))"
  "same_levels s (final (osFile_Sync s))"
  "same_levels s (final (log_console level colored s))"
  "same_levels s (opened path s)"
  by (auto simp: same_levels_def on_fileSync_def on_fileSyncWrite_def logger_Println_def
      osFile_Sync_def log_console_def consoleLogger_Println_def consoleLoggerErr_Println_def
      consoleLoggerErr_Fatal_def opened_def upd_File_def option.map_comp comp_def
      split: option.splits mres.splits)

lemma same_levels_CloseFile [simp]: "same_levels s (final (CloseFile s))"
  unfolding CloseFile_def
  by (auto split: option.splits intro!: same_levels_bnd)

lemma levels_kept:
  "same_levels s (final (log rt level message parameters s))"
  "same_levels s (final (writeToFile rt msg lvl s))"
  "same_levels s (final (openFile rt s))"
proof (induction rt level message parameters s and rt msg lvl s and rt s
    rule: log_writeToFile_openFile.induct)
  case (1 rt level message parameters s)
  show ?case
    apply (subst log.simps)
    apply (auto split: option.splits intro!: same_levels_bnd "1.IH")
    done
next
  case (2 rt message level s)
  show ?case
    apply (subst writeToFile.simps)
    apply (intro same_levels_bnd)
    apply (auto split: option.splits simp: Let_def intro!: same_levels_bnd "2.IH")
    done
next
  case (3 rt s)
  show ?case
    apply (subst openFile.simps)
    apply (auto split: option.splits simp: Let_def intro!: same_levels_bnd "3.IH")
    apply (rule same_levels_trans [OF same_levels_upd(3) same_levels_prims(1)])
    done
qed

lemma same_levels_console [simp]:
  "same_levels s (s\<lparr>lg := (lg s)\<lparr>consoleLogger := a, consoleLoggerErr := b\<rparr>\<rparr>)"
  "same_levels s (s\<lparr>lg := (lg s)\<lparr>enableColors := c\<rparr>\<rparr>)"
  by (simp_all add: same_levels_def)

lemma same_levels_setup: "same_levels s (final (Logger_setup rt keepFile s))"
proof (cases "File (lg s)")
  case None
  then show ?thesis by (simp add: Logger_setup_def)
next
  case (Some f)
  let ?s1 = "s\<lparr>lg := (lg s)\<lparr>consoleLogger := True, consoleLoggerErr := True\<rparr>\<rparr>"
  let ?rest = "bnd (if TrimSpace_nonempty (Path f) \<and> \<not> keepFile then openFile rt ?s1
              else if \<not> keepFile then CloseFile ?s1
              else Returned ?s1) (\<lambda>s.
         (case newColorConfig rt (ColoredOutput (lg s)) of
            Inr conf \<Rightarrow> Returned (s\<lparr>lg := (lg s)\<lparr>enableColors := conf\<rparr>\<rparr>)
          | Inl err \<Rightarrow> log rt LevelDebug ''Panic occured: %s'' [AnyString err] s))"
  have r: "same_levels ?s1 (final ?rest)"
  proof (rule same_levels_bnd)
    show "same_levels ?s1 (final (if TrimSpace_nonempty (Path f) \<and> \<not> keepFile then openFile rt ?s1
              else if \<not> keepFile then CloseFile ?s1 else Returned ?s1))"
      by (simp add: levels_kept(3))
  next
    fix s1
    show "same_levels s1 (final (case newColorConfig rt (ColoredOutput (lg s1)) of
            Inr conf \<Rightarrow> Returned (s1\<lparr>lg := (lg s1)\<lparr>enableColors := conf\<rparr>\<rparr>)
          | Inl err \<Rightarrow> log rt LevelDebug ''Panic occured: %s'' [AnyString err] s1))"
      by (cases "newColorConfig rt (ColoredOutput (lg s1))") (simp_all add: levels_kept(1))
  qed
  have e: "Logger_setup rt keepFile s = ?rest"
    using Some by (simp add: Logger_setup_def)
  have "same_levels s ?s1" by (rule same_levels_console(1))
  from same_levels_trans [OF this r] show ?thesis
    by (simp only: e)
qed

subsection \<open>Level names\<close>

lemma GetLevelByName_String:
  "lvl \<in> set levels \<Longrightarrow> GetLevelByName (Level_String lvl) = (lvl, None)"
  by (auto simp: levels_def Level_defs Level_String_def GetLevelByName_def ToLower_def
      ToLower_char_def)

text \<open>
  C10. For each of the six levels, \<^verbatim>\<open>GetLevelByName\<close> of the level's \<^verbatim>\<open>String()\<close> is the
  level again, through a recognised branch (no warning). Hence \<^verbatim>\<open>GetLoggerFromEnv\<close>, when
  \<^verbatim>\<open>LOGGER_LEVEL\<close> and \<^verbatim>\<open>LOGGER_FILE_LEVEL\<close> are unset and the defaults are among the six
  levels, leaves the logger with the console level and the file level it was given.
\<close>

theorem level_roundtrip:
  "(lvl \<in> set levels \<longrightarrow> GetLevelByName (Level_String lvl) = (lvl, None)) \<and>
   (File (lg s) = Some f \<and> Level (lg s) \<in> set levels \<and> File_Level f \<in> set levels \<and>
    LookupEnv rt ''LOGGER_LEVEL'' = None \<and> LookupEnv rt ''LOGGER_FILE_LEVEL'' = None \<longrightarrow>
      Level (lg (final (GetLoggerFromEnv rt s))) = Level (lg s) \<and>
      map_option File_Level (File (lg (final (GetLoggerFromEnv rt s)))) = Some (File_Level f))"
proof (intro conjI impI)
  assume "lvl \<in> set levels"
  then show "GetLevelByName (Level_String lvl) = (lvl, None)"
    by (rule GetLevelByName_String)
next
  assume a: "File (lg s) = Some f \<and> Level (lg s) \<in> set levels \<and> File_Level f \<in> set levels \<and>
    LookupEnv rt ''LOGGER_LEVEL'' = None \<and> LookupEnv rt ''LOGGER_FILE_LEVEL'' = None"
  let ?l = "(lg s)\<lparr>ColoredOutput := getEnvBool rt ''LOGGER_COLOREDOUTPUT'' (ColoredOutput (lg s)),
      OnlyPrintMessage := getEnvBool rt ''LOGGER_ONLYPRINTMESSAGE'' (OnlyPrintMessage (lg s)),
      File := Some (f\<lparr>Path := getEnvString rt ''LOGGER_FILE_PATH'' (Path f),
                      AppendDate := getEnvBool rt ''LOGGER_FILE_APPENDDATE'' (AppendDate f)\<rparr>),
      PrintSource := getEnvBool rt ''LOGGER_PRINTSOURCE'' (PrintSource (lg s))\<rparr>"
  from a have eq: "GetLoggerFromEnv rt s = NewLogger rt (s\<lparr>lg := ?l\<rparr>)"
    by (simp add: GetLoggerFromEnv_def Let_def getEnvString_def GetLevelByName_String)
  have "same_levels (s\<lparr>lg := ?l\<rparr>) (final (NewLogger rt (s\<lparr>lg := ?l\<rparr>)))"
    unfolding NewLogger_def by (rule same_levels_setup)
  with eq a show "Level (lg (final (GetLoggerFromEnv rt s))) = Level (lg s)"
    and "map_option File_Level (File (lg (final (GetLoggerFromEnv rt s)))) = Some (File_Level f)"
    by (simp_all add: same_levels_def)
qed


lemma GetLoggerFromEnv_example: "GetLoggerFromEnv ex_rt ex_state = Returned ex_ready"
proof -
  have l: "Level_String LevelError = ''ERROR''" "Level_String LevelDebug = ''DEBUG''"
    "GetLevelByName ''ERROR'' = (LevelError, None)"
    "GetLevelByName ''DEBUG'' = (LevelDebug, None)"
    by (simp_all add: Level_String_def Level_defs GetLevelByName_def ToLower_def
        ToLower_char_def)
  have e: "LookupEnv ex_rt v = None" for v
    by (simp add: ex_rt_def)
  have "GetLoggerFromEnv ex_rt ex_state = NewLogger ex_rt ex_state"
    by (simp add: GetLoggerFromEnv_def Let_def getEnvBool_def getEnvString_def e ex_state_def
        ex_logger_def ex_sink_def l)
  then show ?thesis by (simp add: NewLogger_example)
qed


theorem level_roundtrip_witness:
  "LevelInfo \<in> set levels \<and> GetLevelByName (Level_String LevelInfo) = (LevelInfo, None) \<and>
   GetLoggerFromEnv ex_rt ex_state = Returned ex_ready \<and>
   Level (lg (final (GetLoggerFromEnv ex_rt ex_state))) = LevelError \<and>
   map_option File_Level (File (lg (final (GetLoggerFromEnv ex_rt ex_state)))) = Some LevelDebug"
  using level_roundtrip [of LevelInfo ex_state ex_sink ex_rt] GetLoggerFromEnv_example
  by (simp add: levels_def ex_state_def ex_logger_def ex_sink_def ex_rt_def)

end
